theory Spec2Isabelle
  imports Main "HOL-Library.AList" "HOL-Library.Multiset"
begin

section \<open>Python values and dictionaries\<close>

text \<open>
  The storage driver handles dynamically typed values: identifiers and names are strings,
  volumes are numbers, timestamps are datetime objects, the driver generates object ids,
  an in-memory store may hand back a JavaScript date object (a count of milliseconds
  behind a \<open>valueOf\<close> method), and documents nest lists and dictionaries. A dictionary is an association list;
  \<open>d[k] = v\<close> is \<open>AList.update k v d\<close> and \<open>d[k]\<close> is \<open>getitem d k\<close>, which raises
  \<open>KeyError\<close> on a missing key. A datetime is a point on a linear axis, counted in
  milliseconds.
\<close>

datatype pyval =
    PNone
  | PStr string
  | PInt int
  | PTime int
  | POid nat
  | PJsDate int
  | PList "pyval list"
  | PDict "(string \<times> pyval) list"

type_synonym pydict = "(string \<times> pyval) list"

datatype error =
    RuntimeError string
  | KeyError string
  | TypeError
  | ValueError
  | AttributeError
  | DuplicateKeyError

text \<open>Python truth value testing: \<open>None\<close>, the empty string, zero and empty containers are
  false; a datetime and an object id are always true.\<close>

fun truthy :: "pyval \<Rightarrow> bool" where
  "truthy PNone = False"
| "truthy (PStr s) = (s \<noteq> [])"
| "truthy (PInt n) = (n \<noteq> 0)"
| "truthy (PTime t) = True"
| "truthy (POid n) = True"
| "truthy (PJsDate m) = True"
| "truthy (PList xs) = (xs \<noteq> [])"
| "truthy (PDict d) = (d \<noteq> [])"

definition getitem :: "pydict \<Rightarrow> string \<Rightarrow> error + pyval" where
  "getitem d k = (case map_of d k of None \<Rightarrow> Inl (KeyError k) | Some v \<Rightarrow> Inr v)"

section \<open>Filter translation\<close>

text \<open>The \<open>EventFilter\<close> object: seven attributes, each possibly \<open>None\<close>.\<close>

record event_filter =
  user :: pyval
  project :: pyval
  start :: pyval
  end' :: pyval
  resource :: pyval
  meter :: pyval
  source :: pyval

definition make_timestamp_range :: "pyval \<Rightarrow> pyval \<Rightarrow> pydict" where
  "make_timestamp_range start_v end_v =
     (let ts_range = [];
          ts_range = (if truthy start_v then AList.update ''$gte'' start_v ts_range
                      else ts_range);
          ts_range = (if truthy end_v then AList.update ''$lt'' end_v ts_range
                      else ts_range)
      in ts_range)"

definition make_query_from_filter :: "event_filter \<Rightarrow> bool \<Rightarrow> error + pydict" where
  "make_query_from_filter event_filter require_meter =
     (let q = [];
          q = (if truthy (user event_filter)
                 then AList.update ''user_id'' (user event_filter) q
               else if truthy (project event_filter)
                 then AList.update ''project_id'' (project event_filter) q
               else q)
      in if \<not> truthy (meter event_filter) \<and> require_meter
           then Inl (RuntimeError ''Missing required meter specifier'')
         else
           let q = (if truthy (meter event_filter)
                      then AList.update ''counter_name'' (meter event_filter) q else q);
               ts_range = make_timestamp_range (start event_filter) (end' event_filter);
               q = (if ts_range \<noteq> [] then AList.update ''timestamp'' (PDict ts_range) q
                    else q);
               q = (if truthy (resource event_filter)
                      then AList.update ''resource_id'' (resource event_filter) q else q);
               q = (if truthy (source event_filter)
                      then AList.update ''source'' (source event_filter) q else q)
           in Inr q)"

section \<open>The document store\<close>

text \<open>
  The backing store is MongoDB, reached through its driver. The model keeps the four
  collections of the class comment: the user and the project registry map an \<open>_id\<close> to the
  array of source ids, the resource registry maps an \<open>_id\<close> to the resource document, and
  the meter collection is the list of raw documents in insertion order. \<open>next_oid\<close> is the
  driver's object id generator, and \<open>calls\<close> lists the operations issued against the store,
  oldest first.
\<close>

record resource_doc =
  r_project_id :: pyval
  r_user_id :: pyval
  r_timestamp :: pyval
  r_received_timestamp :: pyval
  r_metadata :: pyval
  r_source :: pyval
  r_meter :: "pyval list"

record conn =
  db_user :: "(pyval \<times> pyval list) list"
  db_project :: "(pyval \<times> pyval list) list"
  db_resource :: "(pyval \<times> resource_doc) list"
  db_meter :: "pydict list"
  next_oid :: nat
  calls :: "string list"

definition log_call :: "string \<Rightarrow> 'a conn_scheme \<Rightarrow> 'a conn_scheme" where
  "log_call name c = c\<lparr>calls := calls c @ [name]\<rparr>"

subsection \<open>Query matching\<close>

text \<open>Range operators compare values of one kind only; values of different kinds never
  satisfy a range bound.\<close>

fun val_le :: "pyval \<Rightarrow> pyval \<Rightarrow> bool" where
  "val_le (PTime a) (PTime b) = (a \<le> b)"
| "val_le (PInt a) (PInt b) = (a \<le> b)"
| "val_le _ _ = False"

fun val_lt :: "pyval \<Rightarrow> pyval \<Rightarrow> bool" where
  "val_lt (PTime a) (PTime b) = (a < b)"
| "val_lt (PInt a) (PInt b) = (a < b)"
| "val_lt _ _ = False"

definition op_holds :: "string \<Rightarrow> pyval \<Rightarrow> pyval option \<Rightarrow> bool" where
  "op_holds opr bound fld =
     (case fld of
        None \<Rightarrow> False
      | Some v \<Rightarrow>
          if opr = ''$gte'' then val_le bound v
          else if opr = ''$lt'' then val_lt v bound
          else if opr = ''$in'' then (case bound of PList xs \<Rightarrow> v \<in> set xs | _ \<Rightarrow> False)
          else False)"

text \<open>A condition that is a dictionary is an operator document, every operator of which
  must hold; any other condition asks for equality, where an array field matches when it
  contains the value and a missing field matches \<open>None\<close>.\<close>

fun cond_holds :: "pyval \<Rightarrow> pyval option \<Rightarrow> bool" where
  "cond_holds (PDict ops) fld = list_all (\<lambda>(opr, bound). op_holds opr bound fld) ops"
| "cond_holds v None = (v = PNone)"
| "cond_holds v (Some (PList xs)) = (v \<in> set xs \<or> v = PList xs)"
| "cond_holds v (Some w) = (w = v)"

definition matches :: "pydict \<Rightarrow> pydict \<Rightarrow> bool" where
  "matches q doc = list_all (\<lambda>(k, c). cond_holds c (map_of doc k)) q"

definition coll_find :: "pydict \<Rightarrow> pydict list \<Rightarrow> pydict list" where
  "coll_find q coll = filter (matches q) coll"

definition distinct_field :: "string \<Rightarrow> pydict list \<Rightarrow> pyval list" where
  "distinct_field k docs = remdups (List.map_filter (\<lambda>d. map_of d k) docs)"

subsection \<open>Updates\<close>

text \<open>\<open>$addToSet\<close> appends a value to an array unless the array holds it already.\<close>

definition add_to_set :: "pyval \<Rightarrow> pyval list \<Rightarrow> pyval list" where
  "add_to_set v xs = (if v \<in> set xs then xs else xs @ [v])"

text \<open>\<open>update({'_id': k}, {'$addToSet': {'source': s}}, upsert=True)\<close> on a registry of
  source arrays: the document with that \<open>_id\<close> is updated in place, or created.\<close>

definition upsert_source :: "pyval \<Rightarrow> pyval \<Rightarrow> (pyval \<times> pyval list) list
    \<Rightarrow> (pyval \<times> pyval list) list" where
  "upsert_source k s coll =
     AList.update k (add_to_set s (case map_of coll k of None \<Rightarrow> [] | Some xs \<Rightarrow> xs)) coll"

text \<open>The resource upsert: \<open>$set\<close> overwrites six fields, \<open>$addToSet\<close> extends the meter
  array.\<close>

definition upsert_resource :: "pyval \<Rightarrow> resource_doc \<Rightarrow> pyval
    \<Rightarrow> (pyval \<times> resource_doc) list \<Rightarrow> (pyval \<times> resource_doc) list" where
  "upsert_resource k sets m coll =
     AList.update k
       (sets\<lparr>r_meter := add_to_set m (case map_of coll k of None \<Rightarrow> []
                                         | Some d \<Rightarrow> r_meter d)\<rparr>) coll"

section \<open>The write path\<close>

text \<open>
  The caller hands \<open>record_metering_data\<close> a reference to a dictionary object that the
  caller owns. An entry of a dictionary object is a cell: an immediate value, or a
  reference to a nested object, as the \<open>resource_metadata\<close> dictionary of a sample is.
  \<open>objs\<close> maps addresses to dictionary objects, the addresses below \<open>next_addr\<close> being
  allocated, and \<open>boxes\<close> maps addresses to the nested objects. The connection and the two
  maps together are the state the method runs in.
\<close>

datatype cell = Imm pyval | Ref nat

record world = conn +
  objs :: "nat \<Rightarrow> (string \<times> cell) list"
  boxes :: "nat \<Rightarrow> pydict"
  next_addr :: nat

text \<open>The dictionary at an address as the method reads it and as the driver encodes it
  for the store: every reference stands for the contents of the nested object.\<close>

definition cell_value :: "(nat \<Rightarrow> pydict) \<Rightarrow> cell \<Rightarrow> pyval" where
  "cell_value bs c = (case c of Imm v \<Rightarrow> v | Ref n \<Rightarrow> PDict (bs n))"

definition heap :: "world \<Rightarrow> nat \<Rightarrow> pydict" where
  "heap w a = map (\<lambda>(k, c). (k, cell_value (boxes w) c)) (objs w a)"

text \<open>\<open>copy.copy\<close> is a shallow copy: a new dictionary object with the cells of the old
  one, so that a reference in the old object is the same reference in the new one.\<close>

definition py_copy :: "world \<Rightarrow> nat \<Rightarrow> nat \<times> world" where
  "py_copy w a =
     (next_addr w, w\<lparr>objs := (objs w)(next_addr w := objs w a),
                      next_addr := Suc (next_addr w)\<rparr>)"

text \<open>The driver's \<open>insert\<close>: a document without an \<open>_id\<close> gets a new object id, written
  into the dictionary object that was passed; the document is then stored by value, and
  the store refuses an \<open>_id\<close> that the collection holds already.\<close>

definition driver_insert :: "world \<Rightarrow> nat \<Rightarrow> error option \<times> world" where
  "driver_insert w record =
     (let w = log_call ''meter.insert'' w;
          w = (if map_of (objs w record) ''_id'' = None
               then w\<lparr>objs := (objs w)(record :=
                          AList.update ''_id'' (Imm (POid (next_oid w))) (objs w record)),
                       next_oid := Suc (next_oid w)\<rparr>
               else w);
          doc = heap w record
      in if list_ex (\<lambda>d. map_of d ''_id'' = map_of doc ''_id'') (db_meter w)
         then (Some DuplicateKeyError, w)
         else (None, w\<lparr>db_meter := db_meter w @ [doc]\<rparr>))"

text \<open>Reading \<open>data[k]\<close> inside a method: a missing key ends the method with
  \<open>KeyError\<close> in the state reached so far.\<close>

definition with_item :: "world \<Rightarrow> nat \<Rightarrow> string \<Rightarrow> (pyval \<Rightarrow> error option \<times> world)
    \<Rightarrow> error option \<times> world" where
  "with_item w a k body =
     (case getitem (heap w a) k of Inl e \<Rightarrow> (Some e, w) | Inr v \<Rightarrow> body v)"

text \<open>\<open>record_metering_data(data)\<close>, with \<open>utcnow\<close> the wall-clock time read for
  \<open>received_timestamp\<close>. The result is the exception raised, if any, and the state left
  behind: an exception in a later step does not undo the earlier updates.\<close>

definition record_metering_data :: "world \<Rightarrow> nat \<Rightarrow> pyval \<Rightarrow> error option \<times> world" where
  "record_metering_data w0 data utcnow =
     with_item w0 data ''user_id'' (\<lambda>uid.
     with_item w0 data ''source'' (\<lambda>src.
     let w1 = log_call ''user.update''
                (w0\<lparr>db_user := upsert_source uid src (db_user w0)\<rparr>) in
     with_item w1 data ''project_id'' (\<lambda>pid.
     with_item w1 data ''source'' (\<lambda>src.
     let w2 = log_call ''project.update''
                (w1\<lparr>db_project := upsert_source pid src (db_project w1)\<rparr>);
         received_timestamp = utcnow in
     with_item w2 data ''resource_id'' (\<lambda>rid.
     with_item w2 data ''project_id'' (\<lambda>pid.
     with_item w2 data ''user_id'' (\<lambda>uid.
     with_item w2 data ''timestamp'' (\<lambda>ts.
     with_item w2 data ''resource_metadata'' (\<lambda>md.
     with_item w2 data ''source'' (\<lambda>src.
     with_item w2 data ''counter_name'' (\<lambda>cname.
     with_item w2 data ''counter_type'' (\<lambda>ctype.
     let w3 = log_call ''resource.update''
                (w2\<lparr>db_resource := upsert_resource rid
                     \<lparr>r_project_id = pid, r_user_id = uid, r_timestamp = ts,
                      r_received_timestamp = received_timestamp, r_metadata = md,
                      r_source = src, r_meter = []\<rparr>
                     (PDict [(''counter_name'', cname), (''counter_type'', ctype)])
                     (db_resource w2)\<rparr>);
         (record, w4) = py_copy w3 data
     in driver_insert w4 record))))))))))))"

section \<open>Aggregation\<close>

subsection \<open>The JavaScript map and reduce functions\<close>

text \<open>A missing property reads as \<open>undefined\<close>, written \<open>PNone\<close>. Addition and \<open>Math.max\<close>
  are arithmetic on numbers; with an operand that is not a number the result is not a
  number either, written \<open>PNone\<close>. A comparison with an operand that has no order is
  false.\<close>

definition js_field :: "pydict \<Rightarrow> string \<Rightarrow> pyval" where
  "js_field d k = (case map_of d k of None \<Rightarrow> PNone | Some v \<Rightarrow> v)"

fun js_attr :: "pyval \<Rightarrow> string \<Rightarrow> pyval" where
  "js_attr (PDict d) k = js_field d k"
| "js_attr _ k = PNone"

fun js_set :: "pyval \<Rightarrow> string \<Rightarrow> pyval \<Rightarrow> pyval" where
  "js_set (PDict d) k v = PDict (AList.update k v d)"
| "js_set x k v = x"

fun js_add :: "pyval \<Rightarrow> pyval \<Rightarrow> pyval" where
  "js_add (PInt a) (PInt b) = PInt (a + b)"
| "js_add _ _ = PNone"

fun js_max :: "pyval \<Rightarrow> pyval \<Rightarrow> pyval" where
  "js_max (PInt a) (PInt b) = PInt (max a b)"
| "js_max _ _ = PNone"

fun js_lt :: "pyval \<Rightarrow> pyval \<Rightarrow> bool" where
  "js_lt (PTime a) (PTime b) = (a < b)"
| "js_lt (PJsDate a) (PJsDate b) = (a < b)"
| "js_lt (PInt a) (PInt b) = (a < b)"
| "js_lt _ _ = False"

definition MAP_COUNTER_VOLUME :: "pydict \<Rightarrow> (pyval \<times> pyval) list" where
  "MAP_COUNTER_VOLUME this =
     [(js_field this ''resource_id'', js_field this ''counter_volume'')]"

definition REDUCE_MAX :: "pyval \<Rightarrow> pyval list \<Rightarrow> pyval" where
  "REDUCE_MAX key vals = (case vals of [] \<Rightarrow> PNone | v # vs \<Rightarrow> fold (\<lambda>x m. js_max m x) vs v)"

definition REDUCE_SUM :: "pyval \<Rightarrow> pyval list \<Rightarrow> pyval" where
  "REDUCE_SUM key vals = fold (\<lambda>x total. js_add total x) vals (PInt 0)"

definition MAP_TIMESTAMP :: "pydict \<Rightarrow> (pyval \<times> pyval) list" where
  "MAP_TIMESTAMP this =
     [(PStr ''timestamp'', PDict [(''min'', js_field this ''timestamp''),
                                  (''max'', js_field this ''timestamp'')])]"

text \<open>One round of the loop of \<open>REDUCE_MIN_MAX\<close>, on \<open>values[i]\<close> and \<open>res\<close>.\<close>

definition min_max_step :: "pyval \<Rightarrow> pyval \<Rightarrow> pyval" where
  "min_max_step v res =
     (let res = (if js_lt (js_attr v ''min'') (js_attr res ''min'')
                 then js_set res ''min'' (js_attr v ''min'') else res);
          res = (if js_lt (js_attr res ''max'') (js_attr v ''max'')
                 then js_set res ''max'' (js_attr v ''max'') else res)
      in res)"

definition REDUCE_MIN_MAX :: "pyval \<Rightarrow> pyval list \<Rightarrow> pyval" where
  "REDUCE_MIN_MAX key vals =
     (case vals of
        [] \<Rightarrow> PNone
      | v0 # rest \<Rightarrow> fold min_max_step rest v0)"

subsection \<open>The store's map/reduce\<close>

text \<open>The store runs the map function on every document that matches the query, groups
  the emitted values by key, and reduces each group; a group of one value is returned as
  it is, without a call of the reduce function. The inline result is one row per key,
  the key (\<open>_id\<close>) paired with the value.\<close>

definition map_reduce :: "pydict list \<Rightarrow> (pydict \<Rightarrow> (pyval \<times> pyval) list)
    \<Rightarrow> (pyval \<Rightarrow> pyval list \<Rightarrow> pyval) \<Rightarrow> pydict \<Rightarrow> (pyval \<times> pyval) list" where
  "map_reduce coll mapf reducef q =
     (let emitted = concat (map mapf (coll_find q coll));
          keys = remdups (map fst emitted)
      in map (\<lambda>k. let vals = map snd (filter (\<lambda>kv. fst kv = k) emitted)
                   in (k, if length vals = 1 then hd vals else reducef k vals)) keys)"

subsection \<open>The aggregate queries\<close>

definition get_volume_sum :: "'a conn_scheme \<Rightarrow> event_filter
    \<Rightarrow> (error + pydict list) \<times> 'a conn_scheme" where
  "get_volume_sum c event_filter =
     (case make_query_from_filter event_filter True of
        Inl e \<Rightarrow> (Inl e, c)
      | Inr q \<Rightarrow>
          let c = log_call ''meter.map_reduce'' c;
              results = map_reduce (db_meter c) MAP_COUNTER_VOLUME REDUCE_SUM q
          in (Inr (map (\<lambda>r. [(''resource_id'', fst r), (''value'', snd r)]) results), c))"

definition get_volume_max :: "'a conn_scheme \<Rightarrow> event_filter
    \<Rightarrow> (error + pydict list) \<times> 'a conn_scheme" where
  "get_volume_max c event_filter =
     (case make_query_from_filter event_filter True of
        Inl e \<Rightarrow> (Inl e, c)
      | Inr q \<Rightarrow>
          let c = log_call ''meter.map_reduce'' c;
              results = map_reduce (db_meter c) MAP_COUNTER_VOLUME REDUCE_MAX q
          in (Inr (map (\<lambda>r. [(''resource_id'', fst r), (''value'', snd r)]) results), c))"

text \<open>Subscripting a value: only a dictionary can be subscripted by a key.\<close>

fun py_subscript :: "pyval \<Rightarrow> string \<Rightarrow> error + pyval" where
  "py_subscript (PDict d) k = getitem d k"
| "py_subscript _ k = Inl TypeError"

text \<open>The conversion applied to a value with a \<open>valueOf\<close> method: its milliseconds are
  cut to whole seconds and turned into a datetime (the offset of the local time zone is
  taken as zero).\<close>

fun has_valueOf :: "pyval \<Rightarrow> bool" where
  "has_valueOf (PJsDate m) = True"
| "has_valueOf _ = False"

fun fromtimestamp_valueOf :: "pyval \<Rightarrow> error + pyval" where
  "fromtimestamp_valueOf (PJsDate m) = Inr (PTime (m div 1000 * 1000))"
| "fromtimestamp_valueOf _ = Inl AttributeError"

definition convert_interval :: "pyval \<Rightarrow> pyval \<Rightarrow> error + pyval \<times> pyval" where
  "convert_interval a_min a_max =
     (if has_valueOf a_min
      then (case fromtimestamp_valueOf a_min of
              Inl e \<Rightarrow> Inl e
            | Inr lo \<Rightarrow> (case fromtimestamp_valueOf a_max of
                          Inl e \<Rightarrow> Inl e
                        | Inr hi \<Rightarrow> Inr (lo, hi)))
      else Inr (a_min, a_max))"

definition get_event_interval :: "'a conn_scheme \<Rightarrow> event_filter
    \<Rightarrow> (error + pyval \<times> pyval) \<times> 'a conn_scheme" where
  "get_event_interval c event_filter =
     (case make_query_from_filter event_filter True of
        Inl e \<Rightarrow> (Inl e, c)
      | Inr q \<Rightarrow>
          let c = log_call ''meter.map_reduce'' c;
              results = map_reduce (db_meter c) MAP_TIMESTAMP REDUCE_MIN_MAX q
          in (case results of
                [] \<Rightarrow> (Inr (PNone, PNone), c)
              | r # _ \<Rightarrow>
                  (case py_subscript (snd r) ''min'' of
                     Inl e \<Rightarrow> (Inl e, c)
                   | Inr a_min \<Rightarrow>
                       (case py_subscript (snd r) ''max'' of
                          Inl e \<Rightarrow> (Inl e, c)
                        | Inr a_max \<Rightarrow> (convert_interval a_min a_max, c)))))"

section \<open>Listing resources\<close>

text \<open>A document of the resource registry as the store returns it.\<close>

definition resource_as_dict :: "pyval \<times> resource_doc \<Rightarrow> pydict" where
  "resource_as_dict kd =
     [(''_id'', fst kd),
      (''project_id'', r_project_id (snd kd)),
      (''user_id'', r_user_id (snd kd)),
      (''timestamp'', r_timestamp (snd kd)),
      (''received_timestamp'', r_received_timestamp (snd kd)),
      (''metadata'', r_metadata (snd kd)),
      (''source'', r_source (snd kd)),
      (''meter'', PList (r_meter (snd kd)))]"

text \<open>The query that \<open>get_resources\<close> builds from its first three arguments, each clause
  added when the argument is not \<open>None\<close>.\<close>

definition resource_query :: "pyval \<Rightarrow> pyval \<Rightarrow> pyval \<Rightarrow> pydict" where
  "resource_query user_v project_v source_v =
     (let q = [];
          q = (if user_v \<noteq> PNone then AList.update ''user_id'' user_v q else q);
          q = (if project_v \<noteq> PNone then AList.update ''project_id'' project_v q else q);
          q = (if source_v \<noteq> PNone then AList.update ''source'' source_v q else q)
      in q)"

text \<open>The record handed to the caller: the registry document with \<open>_id\<close> renamed to
  \<open>resource_id\<close>.\<close>

definition reshape_resource :: "pydict \<Rightarrow> pydict" where
  "reshape_resource resource_v =
     (let r = resource_v;
          r = (case map_of r ''_id'' of None \<Rightarrow> r
               | Some i \<Rightarrow> AList.update ''resource_id'' i r)
      in AList.delete ''_id'' r)"

text \<open>\<open>get_resources\<close>, with the generator run to its end. With a time bound the query,
  extended by the timestamp clause, selects samples of the raw log, and the registry is
  then asked for the resource ids of those samples only.\<close>

definition get_resources :: "'a conn_scheme \<Rightarrow> pyval \<Rightarrow> pyval \<Rightarrow> pyval \<Rightarrow> pyval \<Rightarrow> pyval
    \<Rightarrow> pydict list \<times> 'a conn_scheme" where
  "get_resources c user_v project_v source_v start_timestamp end_timestamp =
     (let q = resource_query user_v project_v source_v;
          qc = (if truthy start_timestamp \<or> truthy end_timestamp
                then let ts_range = make_timestamp_range start_timestamp end_timestamp;
                         q = (if ts_range \<noteq> []
                              then AList.update ''timestamp'' (PDict ts_range) q else q);
                         c = log_call ''meter.find'' c;
                         resource_ids = distinct_field ''resource_id''
                                          (coll_find q (db_meter c))
                     in ([(''_id'', PDict [(''$in'', PList resource_ids)])], c)
                else (q, c));
          c = log_call ''resource.find'' (snd qc)
      in (map reshape_resource (coll_find (fst qc) (map resource_as_dict (db_resource c))),
          c))"

section \<open>Sample states for the worked instances\<close>

definition empty_conn :: conn where
  "empty_conn = \<lparr>db_user = [], db_project = [], db_resource = [], db_meter = [],
                  next_oid = 0, calls = []\<rparr>"

definition no_filter :: event_filter where
  "no_filter = \<lparr>user = PNone, project = PNone, start = PNone, end' = PNone,
                 resource = PNone, meter = PNone, source = PNone\<rparr>"


section \<open>Sequences of ingestions\<close>

text \<open>The value under a key of a dictionary (\<open>PNone\<close> when the key is missing).\<close>

definition item :: "pydict \<Rightarrow> string \<Rightarrow> pyval" where
  "item d k = (case map_of d k of None \<Rightarrow> PNone | Some v \<Rightarrow> v)"

text \<open>A sample that carries every key the write path reads.\<close>

definition sample_keys :: "string list" where
  "sample_keys = [''user_id'', ''source'', ''project_id'', ''resource_id'', ''timestamp'',
                  ''resource_metadata'', ''counter_name'', ''counter_type'']"

definition wf_sample :: "pydict \<Rightarrow> bool" where
  "wf_sample d = list_all (\<lambda>k. map_of d k \<noteq> None) sample_keys"

text \<open>The state after a series of calls of \<open>record_metering_data\<close>, each with the address
  of its sample and the clock reading of the call; a call that raised leaves the state it
  reached.\<close>

definition record_all :: "world \<Rightarrow> (nat \<times> pyval) list \<Rightarrow> world" where
  "record_all w cs = foldl (\<lambda>w (a, t). snd (record_metering_data w a t)) w cs"

text \<open>The source array a registry holds for an id, and the meter array the resource
  registry holds for a resource (empty when there is no record).\<close>

definition sources_of :: "(pyval \<times> pyval list) list \<Rightarrow> pyval \<Rightarrow> pyval list" where
  "sources_of coll k = (case map_of coll k of None \<Rightarrow> [] | Some xs \<Rightarrow> xs)"

definition meters_of :: "(pyval \<times> resource_doc) list \<Rightarrow> pyval \<Rightarrow> pyval list" where
  "meters_of coll k = (case map_of coll k of None \<Rightarrow> [] | Some d \<Rightarrow> r_meter d)"

definition meter_entry :: "pydict \<Rightarrow> pyval" where
  "meter_entry d = PDict [(''counter_name'', item d ''counter_name''),
                          (''counter_type'', item d ''counter_type'')]"

text \<open>Two samples for one resource, in the manner of the test suite, as the store
  receives them, and a state in which the caller holds them as dictionary objects at the
  addresses 0 and 1, each with its \<open>resource_metadata\<close> in a nested object, while the
  store is empty.\<close>

definition metadata1 :: pydict where
  "metadata1 = [(''display_name'', PStr ''test-server''), (''tag'', PStr ''self.counter'')]"

definition metadata2 :: pydict where
  "metadata2 = [(''display_name'', PStr ''test-server''), (''tag'', PStr ''self.counter2'')]"

definition sample1 :: pydict where
  "sample1 = [(''source'', PStr ''test_list_users''), (''counter_name'', PStr ''instance''),
              (''counter_type'', PStr ''cumulative''), (''counter_volume'', PInt 1),
              (''user_id'', PStr ''user-id''), (''project_id'', PStr ''project-id''),
              (''resource_id'', PStr ''resource-id''), (''timestamp'', PTime 40),
              (''resource_metadata'', PDict [(''display_name'', PStr ''test-server''),
                                             (''tag'', PStr ''self.counter'')])]"

definition sample2 :: pydict where
  "sample2 = [(''source'', PStr ''test_list_users''), (''counter_name'', PStr ''instance''),
              (''counter_type'', PStr ''cumulative''), (''counter_volume'', PInt 1),
              (''user_id'', PStr ''user-id2''), (''project_id'', PStr ''project-id''),
              (''resource_id'', PStr ''resource-id''), (''timestamp'', PTime 41),
              (''resource_metadata'', PDict [(''display_name'', PStr ''test-server''),
                                             (''tag'', PStr ''self.counter2'')])]"

definition sample1_object :: "(string \<times> cell) list" where
  "sample1_object =
     [(''source'', Imm (PStr ''test_list_users'')), (''counter_name'', Imm (PStr ''instance'')),
      (''counter_type'', Imm (PStr ''cumulative'')), (''counter_volume'', Imm (PInt 1)),
      (''user_id'', Imm (PStr ''user-id'')), (''project_id'', Imm (PStr ''project-id'')),
      (''resource_id'', Imm (PStr ''resource-id'')), (''timestamp'', Imm (PTime 40)),
      (''resource_metadata'', Ref 0)]"

definition sample2_object :: "(string \<times> cell) list" where
  "sample2_object =
     [(''source'', Imm (PStr ''test_list_users'')), (''counter_name'', Imm (PStr ''instance'')),
      (''counter_type'', Imm (PStr ''cumulative'')), (''counter_volume'', Imm (PInt 1)),
      (''user_id'', Imm (PStr ''user-id2'')), (''project_id'', Imm (PStr ''project-id'')),
      (''resource_id'', Imm (PStr ''resource-id'')), (''timestamp'', Imm (PTime 41)),
      (''resource_metadata'', Ref 1)]"

definition world0 :: world where
  "world0 = \<lparr>db_user = [], db_project = [], db_resource = [], db_meter = [],
             next_oid = 0, calls = [],
             objs = (\<lambda>a. [])(0 := sample1_object, 1 := sample2_object),
             boxes = (\<lambda>n. [])(0 := metadata1, 1 := metadata2),
             next_addr = 2\<rparr>"

text \<open>The state after the two samples have been ingested, one after the other.\<close>

definition ingested :: world where
  "ingested = record_all world0 [(0, PTime 100), (1, PTime 101)]"

section \<open>Reading aggregate results\<close>




text \<open>A store whose raw log holds the two samples.\<close>

definition conn2 :: conn where
  "conn2 = \<lparr>db_user = [], db_project = [], db_resource = [],
            db_meter = [sample1 @ [(''_id'', POid 0)], sample2 @ [(''_id'', POid 1)]],
            next_oid = 2, calls = []\<rparr>"



section \<open>Sharing between dictionary objects\<close>

text \<open>The nested objects that a dictionary object refers to, and whether two dictionary
  objects of a state refer to a common nested object.\<close>

definition refs_of :: "(string \<times> cell) list \<Rightarrow> nat list" where
  "refs_of ob = concat (map (\<lambda>(k, c). case c of Imm v \<Rightarrow> [] | Ref n \<Rightarrow> [n]) ob)"

definition shares_nested :: "world \<Rightarrow> nat \<Rightarrow> nat \<Rightarrow> bool" where
  "shares_nested w a b = list_ex (\<lambda>n. n \<in> set (refs_of (objs w b))) (refs_of (objs w a))"

section \<open>Properties\<close>

subsection \<open>Filter translation\<close>

lemma mtr_gte: "map_of (make_timestamp_range s e) ''$gte'' = (if truthy s then Some s else None)"
  by (simp add: make_timestamp_range_def)

lemma mtr_lt: "map_of (make_timestamp_range s e) ''$lt'' = (if truthy e then Some e else None)"
  by (simp add: make_timestamp_range_def)

lemma mtr_keys: "fst ` set (make_timestamp_range s e) \<subseteq> {''$gte'', ''$lt''}"
  by (auto simp add: make_timestamp_range_def Let_def split: if_splits)

lemma mtr_empty: "make_timestamp_range s e = [] \<longleftrightarrow> \<not> truthy s \<and> \<not> truthy e"
  by (simp add: make_timestamp_range_def)

lemma mtr_holds:
  "cond_holds (PDict (make_timestamp_range a b)) (Some v) \<longleftrightarrow>
     (truthy a \<longrightarrow> val_le a v) \<and> (truthy b \<longrightarrow> val_lt v b)"
  by (simp add: make_timestamp_range_def op_holds_def)

text \<open>
  Claim C1. With \<open>require_meter\<close> true, the translation raises the missing-meter error
  exactly when the filter's meter is empty. In that case no query is returned, and every
  aggregate query built on the translation hands the error on with the store unchanged
  and no operation added to the list of store calls; when the meter is given, the
  aggregate queries do call the store. With \<open>require_meter\<close> false an empty meter yields a
  query without a \<open>counter_name\<close> clause.
\<close>

theorem missing_meter_error:
  "((\<exists>e. make_query_from_filter f True = Inl e) \<longleftrightarrow> \<not> truthy (meter f))
   \<and> (\<not> truthy (meter f) \<longrightarrow>
        make_query_from_filter f True = Inl (RuntimeError ''Missing required meter specifier'')
        \<and> get_volume_sum c f = (Inl (RuntimeError ''Missing required meter specifier''), c)
        \<and> get_volume_max c f = (Inl (RuntimeError ''Missing required meter specifier''), c)
        \<and> get_event_interval c f = (Inl (RuntimeError ''Missing required meter specifier''), c)
        \<and> (\<exists>q. make_query_from_filter f False = Inr q \<and> map_of q ''counter_name'' = None))
   \<and> (truthy (meter f) \<longrightarrow>
        calls (snd (get_volume_sum c f)) = calls c @ [''meter.map_reduce'']
        \<and> calls (snd (get_volume_max c f)) = calls c @ [''meter.map_reduce'']
        \<and> calls (snd (get_event_interval c f)) = calls c @ [''meter.map_reduce''])"
proof -
  have iff: "(\<exists>e. make_query_from_filter f True = Inl e) \<longleftrightarrow> \<not> truthy (meter f)"
    by (simp add: make_query_from_filter_def Let_def)
  have err: "make_query_from_filter f True = Inl (RuntimeError ''Missing required meter specifier'')"
    if "\<not> truthy (meter f)"
    using that by (simp add: make_query_from_filter_def Let_def)
  have nometer: "\<exists>q. make_query_from_filter f False = Inr q \<and> map_of q ''counter_name'' = None"
    if "\<not> truthy (meter f)"
    using that by (simp add: make_query_from_filter_def Let_def update_conv')
  have ok: "\<exists>q. make_query_from_filter f True = Inr q" if "truthy (meter f)"
    using that by (simp add: make_query_from_filter_def Let_def)
  have logged: "calls (snd (get_volume_sum c f)) = calls c @ [''meter.map_reduce'']
        \<and> calls (snd (get_volume_max c f)) = calls c @ [''meter.map_reduce'']
        \<and> calls (snd (get_event_interval c f)) = calls c @ [''meter.map_reduce'']"
    if "truthy (meter f)"
  proof -
    from ok [OF that] obtain q where q: "make_query_from_filter f True = Inr q" ..
    show ?thesis
      by (simp add: q get_volume_sum_def get_volume_max_def get_event_interval_def
            log_call_def Let_def split: list.splits sum.splits)
  qed
  show ?thesis
    using iff err nometer logged
    by (simp add: get_volume_sum_def get_volume_max_def get_event_interval_def)
qed

theorem missing_meter_error_witness:
  "make_query_from_filter (no_filter\<lparr>meter := PStr ''''\<rparr>) True
     = Inl (RuntimeError ''Missing required meter specifier'')
   \<and> get_volume_sum empty_conn (no_filter\<lparr>meter := PStr ''''\<rparr>)
     = (Inl (RuntimeError ''Missing required meter specifier''), empty_conn)
   \<and> calls (snd (get_volume_sum empty_conn (no_filter\<lparr>meter := PStr ''instance''\<rparr>)))
     = [''meter.map_reduce'']"
  using missing_meter_error [of "no_filter\<lparr>meter := PStr ''''\<rparr>" empty_conn]
        missing_meter_error [of "no_filter\<lparr>meter := PStr ''instance''\<rparr>" empty_conn]
  by (simp add: no_filter_def empty_conn_def)

text \<open>
  Claim C4. When both the user and the project of a filter are set, the query has the
  \<open>user_id\<close> clause of the user and no \<open>project_id\<close> clause, and the translation does not
  depend on the project at all: replacing it by any other value gives the same outcome.
  The translation is a function of the filter and the flag alone.
\<close>

theorem user_precedence:
  assumes "truthy (user f)" and "truthy (project f)"
  shows "(\<forall>q. make_query_from_filter f rm = Inr q \<longrightarrow>
            map_of q ''user_id'' = Some (user f) \<and> map_of q ''project_id'' = None)
       \<and> (\<forall>p. make_query_from_filter (f\<lparr>project := p\<rparr>) rm = make_query_from_filter f rm)
       \<and> (truthy (meter f) \<or> \<not> rm \<longrightarrow> (\<exists>q. make_query_from_filter f rm = Inr q))"
  using assms
  by (auto simp add: make_query_from_filter_def Let_def update_conv' split: if_splits)

theorem user_precedence_witness:
  "map_of (projr (make_query_from_filter
      (no_filter\<lparr>user := PStr ''u1'', project := PStr ''p1'', meter := PStr ''instance''\<rparr>) True))
      ''user_id'' = Some (PStr ''u1'')
   \<and> map_of (projr (make_query_from_filter
      (no_filter\<lparr>user := PStr ''u1'', project := PStr ''p1'', meter := PStr ''instance''\<rparr>) True))
      ''project_id'' = None
   \<and> isl (make_query_from_filter
      (no_filter\<lparr>user := PStr ''u1'', project := PStr ''p1'', meter := PStr ''instance''\<rparr>) True) = False"
  using user_precedence [of "no_filter\<lparr>user := PStr ''u1'', project := PStr ''p1'', meter := PStr ''instance''\<rparr>" True]
  by (auto simp add: no_filter_def)

text \<open>
  Claim C6. The \<open>timestamp\<close> clause of a translated query is present exactly when the
  start or the end is given; it holds \<open>$gte\<close> with the start when the start is given and
  \<open>$lt\<close> with the end when the end is given, each independently of the other, and no other
  operator. A value satisfies the clause when it is at or after the start and strictly
  before the end: the interval is half-open.
\<close>

theorem timestamp_clause_half_open:
  assumes "make_query_from_filter f rm = Inr q"
  shows "map_of q ''timestamp'' =
           (if truthy (start f) \<or> truthy (end' f)
            then Some (PDict (make_timestamp_range (start f) (end' f))) else None)
       \<and> map_of (make_timestamp_range (start f) (end' f)) ''$gte''
           = (if truthy (start f) then Some (start f) else None)
       \<and> map_of (make_timestamp_range (start f) (end' f)) ''$lt''
           = (if truthy (end' f) then Some (end' f) else None)
       \<and> fst ` set (make_timestamp_range (start f) (end' f)) \<subseteq> {''$gte'', ''$lt''}
       \<and> (\<forall>v. cond_holds (PDict (make_timestamp_range (start f) (end' f))) (Some v) \<longleftrightarrow>
              (truthy (start f) \<longrightarrow> val_le (start f) v) \<and> (truthy (end' f) \<longrightarrow> val_lt v (end' f)))
       \<and> (\<forall>s e t. start f = PTime s \<and> end' f = PTime e \<longrightarrow>
              (cond_holds (PDict (make_timestamp_range (start f) (end' f))) (Some (PTime t))
                 \<longleftrightarrow> s \<le> t \<and> t < e))"
proof -
  let ?r = "make_timestamp_range (start f) (end' f)"
  have ts: "map_of q ''timestamp'' =
           (if truthy (start f) \<or> truthy (end' f) then Some (PDict ?r) else None)"
    using assms
    by (auto simp add: make_query_from_filter_def Let_def update_conv' mtr_empty split: if_splits)
  have k1: "map_of ?r ''$gte'' = (if truthy (start f) then Some (start f) else None)"
    by (rule mtr_gte)
  have k2: "map_of ?r ''$lt'' = (if truthy (end' f) then Some (end' f) else None)"
    by (rule mtr_lt)
  have k3: "fst ` set ?r \<subseteq> {''$gte'', ''$lt''}"
    by (rule mtr_keys)
  have sem: "\<forall>v. cond_holds (PDict ?r) (Some v) \<longleftrightarrow>
              (truthy (start f) \<longrightarrow> val_le (start f) v) \<and> (truthy (end' f) \<longrightarrow> val_lt v (end' f))"
    using mtr_holds by blast
  have sem2: "\<forall>s e t. start f = PTime s \<and> end' f = PTime e \<longrightarrow>
              (cond_holds (PDict ?r) (Some (PTime t)) \<longleftrightarrow> s \<le> t \<and> t < e)"
    by (auto simp add: mtr_holds simp del: cond_holds.simps)
  from ts k1 k2 k3 sem sem2 show ?thesis by blast
qed

theorem timestamp_clause_half_open_witness:
  "map_of (projr (make_query_from_filter
      (no_filter\<lparr>start := PTime 10, end' := PTime 20, meter := PStr ''instance''\<rparr>) True))
      ''timestamp'' = Some (PDict [(''$gte'', PTime 10), (''$lt'', PTime 20)])
   \<and> cond_holds (PDict [(''$gte'', PTime 10), (''$lt'', PTime 20)]) (Some (PTime 10))
   \<and> \<not> cond_holds (PDict [(''$gte'', PTime 10), (''$lt'', PTime 20)]) (Some (PTime 20))
   \<and> map_of (projr (make_query_from_filter (no_filter\<lparr>meter := PStr ''instance''\<rparr>) True))
      ''timestamp'' = None"
proof -
  let ?f = "no_filter\<lparr>start := PTime 10, end' := PTime 20, meter := PStr ''instance''\<rparr>"
  let ?g = "no_filter\<lparr>meter := PStr ''instance''\<rparr>"
  have r: "make_timestamp_range (PTime 10) (PTime 20) = [(''$gte'', PTime 10), (''$lt'', PTime 20)]"
    by (simp add: make_timestamp_range_def)
  have f: "make_query_from_filter ?f True = Inr (projr (make_query_from_filter ?f True))"
    by (simp add: make_query_from_filter_def no_filter_def Let_def)
  have g: "make_query_from_filter ?g True = Inr (projr (make_query_from_filter ?g True))"
    by (simp add: make_query_from_filter_def no_filter_def Let_def)
  show ?thesis
    using timestamp_clause_half_open [OF f] timestamp_clause_half_open [OF g] r
    by (simp add: no_filter_def del: cond_holds.simps)
qed

subsection \<open>The write path\<close>

lemma with_item_inv:
  assumes "P w" and "\<And>v. map_of (heap w d) k = Some v \<Longrightarrow> P (snd (body v))"
  shows "P (snd (with_item w d k body))"
  using assms by (simp add: with_item_def getitem_def split: option.splits)

lemma with_item_Some: "map_of (heap w d) k = Some v \<Longrightarrow> with_item w d k body = body v"
  by (simp add: with_item_def getitem_def)

lemma with_item_None:
  "map_of (heap w d) k = None \<Longrightarrow> with_item w d k body = (Some (KeyError k), w)"
  by (simp add: with_item_def getitem_def)

lemma log_call_fields [simp]:
  "objs (log_call n w) = objs w"
  "boxes (log_call n w) = boxes w"
  "next_addr (log_call n w) = next_addr w"
  "db_user (log_call n w) = db_user w"
  "db_project (log_call n w) = db_project w"
  "db_resource (log_call n w) = db_resource w"
  "db_meter (log_call n w) = db_meter w"
  "next_oid (log_call n w) = next_oid w"
  by (simp_all add: log_call_def)

lemma heap_eqI: "objs w' a = objs w a \<Longrightarrow> boxes w' = boxes w \<Longrightarrow> heap w' a = heap w a"
  by (simp add: heap_def)

lemma heap_fields [simp]:
  "heap (log_call n w) = heap w"
  "heap (w\<lparr>db_user := u\<rparr>) = heap w"
  "heap (w\<lparr>db_project := p\<rparr>) = heap w"
  "heap (w\<lparr>db_resource := r\<rparr>) = heap w"
  "heap (w\<lparr>db_meter := m\<rparr>) = heap w"
  "heap (w\<lparr>next_oid := i\<rparr>) = heap w"
  "heap (w\<lparr>next_addr := j\<rparr>) = heap w"
  by (simp_all add: heap_def fun_eq_iff)

lemma heap_objs_update:
  "heap (w\<lparr>objs := (objs w)(r := ob)\<rparr>) a =
     (if a = r then map (\<lambda>(k, c). (k, cell_value (boxes w) c)) ob else heap w a)"
  by (simp add: heap_def)

lemma map_of_heap:
  "map_of (heap w a) k = map_option (cell_value (boxes w)) (map_of (objs w a) k)"
  by (simp add: heap_def map_of_map)

lemma view_update:
  "map (\<lambda>(k, c). (k, f c)) (AList.update k0 c0 al)
     = AList.update k0 (f c0) (map (\<lambda>(k, c). (k, f c)) al)"
  by (induction al) auto

lemma driver_insert_objs:
  "a \<noteq> r \<Longrightarrow> objs (snd (driver_insert w r)) a = objs w a"
  by (simp add: driver_insert_def Let_def)

lemma driver_insert_fields:
  "next_addr (snd (driver_insert w r)) = next_addr w"
  "boxes (snd (driver_insert w r)) = boxes w"
  "db_user (snd (driver_insert w r)) = db_user w"
  "db_project (snd (driver_insert w r)) = db_project w"
  "db_resource (snd (driver_insert w r)) = db_resource w"
  by (simp_all add: driver_insert_def Let_def)

lemma rmd_objs_frame:
  "a < next_addr w \<Longrightarrow> objs (snd (record_metering_data w d t)) a = objs w a"
  unfolding record_metering_data_def Let_def
  by (intro with_item_inv [where P = "\<lambda>w'. objs w' a = objs w a"])
     (simp_all add: py_copy_def driver_insert_objs)

lemma rmd_boxes: "boxes (snd (record_metering_data w d t)) = boxes w"
  unfolding record_metering_data_def Let_def
  by (intro with_item_inv [where P = "\<lambda>w'. boxes w' = boxes w"])
     (simp_all add: py_copy_def driver_insert_fields)

lemma rmd_heap_frame:
  "a < next_addr w \<Longrightarrow> heap (snd (record_metering_data w d t)) a = heap w a"
  by (rule heap_eqI) (simp_all add: rmd_objs_frame rmd_boxes)

lemma world0_heap:
  "heap world0 0 = sample1" "heap world0 (Suc 0) = sample2" "heap world0 1 = sample2"
  by (simp_all add: world0_def heap_def cell_value_def sample1_def sample2_def
        sample1_object_def sample2_object_def metadata1_def metadata2_def)

lemma rmd_next_addr:
  "next_addr w \<le> next_addr (snd (record_metering_data w d t))"
  unfolding record_metering_data_def Let_def
  by (intro with_item_inv [where P = "\<lambda>w'. next_addr w \<le> next_addr w'"])
     (simp_all add: py_copy_def driver_insert_fields)


lemma rmd_db_user:
  "db_user (snd (record_metering_data w d t)) =
     (case map_of (heap w d) ''user_id'' of None \<Rightarrow> db_user w
      | Some u \<Rightarrow> (case map_of (heap w d) ''source'' of None \<Rightarrow> db_user w
                   | Some s \<Rightarrow> upsert_source u s (db_user w)))"
proof (cases "map_of (heap w d) ''user_id''")
  case None
  then show ?thesis by (simp add: record_metering_data_def with_item_None)
next
  case u: (Some u)
  show ?thesis
  proof (cases "map_of (heap w d) ''source''")
    case None
    then show ?thesis by (simp add: record_metering_data_def u with_item_Some with_item_None)
  next
    case s: (Some s)
    have "db_user (snd (record_metering_data w d t)) = upsert_source u s (db_user w)"
      unfolding record_metering_data_def Let_def
      apply (subst with_item_Some [OF u])
      apply (subst with_item_Some [OF s])
      by (intro with_item_inv [where P = "\<lambda>w'. db_user w' = upsert_source u s (db_user w)"])
         (simp_all add: py_copy_def driver_insert_fields)
    then show ?thesis by (simp add: u s)
  qed
qed

lemma rmd_db_project:
  "db_project (snd (record_metering_data w d t)) =
     (case map_of (heap w d) ''user_id'' of None \<Rightarrow> db_project w
      | Some u \<Rightarrow> (case map_of (heap w d) ''source'' of None \<Rightarrow> db_project w
                   | Some s \<Rightarrow> (case map_of (heap w d) ''project_id'' of None \<Rightarrow> db_project w
                      | Some p \<Rightarrow> upsert_source p s (db_project w))))"
proof (cases "map_of (heap w d) ''user_id''")
  case None
  then show ?thesis by (simp add: record_metering_data_def with_item_None)
next
  case u: (Some u)
  show ?thesis
  proof (cases "map_of (heap w d) ''source''")
    case None
    then show ?thesis by (simp add: record_metering_data_def u with_item_Some with_item_None)
  next
    case s: (Some s)
    show ?thesis
    proof (cases "map_of (heap w d) ''project_id''")
      case None
      then show ?thesis
        by (simp add: record_metering_data_def u s with_item_Some with_item_None Let_def)
    next
      case p: (Some p)
      have "db_project (snd (record_metering_data w d t)) = upsert_source p s (db_project w)"
        unfolding record_metering_data_def Let_def
        apply (subst with_item_Some [OF u])
        apply (subst with_item_Some [OF s])
        apply (subst with_item_Some [where v = p], simp add: p)
        apply (subst with_item_Some [where v = s], simp add: s)
        by (intro with_item_inv [where P = "\<lambda>w'. db_project w' = upsert_source p s (db_project w)"])
           (simp_all add: py_copy_def driver_insert_fields)
      then show ?thesis by (simp add: u s p)
    qed
  qed
qed

lemma wf_sample_keys:
  assumes "wf_sample d"
  shows "map_of d ''user_id'' = Some (item d ''user_id'')"
    and "map_of d ''source'' = Some (item d ''source'')"
    and "map_of d ''project_id'' = Some (item d ''project_id'')"
    and "map_of d ''resource_id'' = Some (item d ''resource_id'')"
    and "map_of d ''timestamp'' = Some (item d ''timestamp'')"
    and "map_of d ''resource_metadata'' = Some (item d ''resource_metadata'')"
    and "map_of d ''counter_name'' = Some (item d ''counter_name'')"
    and "map_of d ''counter_type'' = Some (item d ''counter_type'')"
  using assms by (auto simp add: wf_sample_def sample_keys_def item_def)

text \<open>The state in which the raw document is inserted, for a sample with every key.\<close>

lemma rmd_wf:
  assumes "wf_sample (heap w d)"
  shows "record_metering_data w d t =
     driver_insert
       (snd (py_copy
         (log_call ''resource.update''
           ((log_call ''project.update''
              ((log_call ''user.update''
                 (w\<lparr>db_user := upsert_source (item (heap w d) ''user_id'')
                                 (item (heap w d) ''source'') (db_user w)\<rparr>))
               \<lparr>db_project := upsert_source (item (heap w d) ''project_id'')
                                 (item (heap w d) ''source'') (db_project w)\<rparr>))
            \<lparr>db_resource := upsert_resource (item (heap w d) ''resource_id'')
               \<lparr>r_project_id = item (heap w d) ''project_id'',
                r_user_id = item (heap w d) ''user_id'',
                r_timestamp = item (heap w d) ''timestamp'', r_received_timestamp = t,
                r_metadata = item (heap w d) ''resource_metadata'',
                r_source = item (heap w d) ''source'', r_meter = []\<rparr>
               (meter_entry (heap w d)) (db_resource w)\<rparr>)) d))
       (next_addr w)"
  unfolding record_metering_data_def Let_def
  by (simp add: with_item_Some wf_sample_keys [OF assms] py_copy_def meter_entry_def)

lemma rmd_db_resource:
  "wf_sample (heap w d) \<Longrightarrow>
   db_resource (snd (record_metering_data w d t)) =
     upsert_resource (item (heap w d) ''resource_id'')
       \<lparr>r_project_id = item (heap w d) ''project_id'', r_user_id = item (heap w d) ''user_id'',
        r_timestamp = item (heap w d) ''timestamp'', r_received_timestamp = t,
        r_metadata = item (heap w d) ''resource_metadata'', r_source = item (heap w d) ''source'',
        r_meter = []\<rparr>
       (meter_entry (heap w d)) (db_resource w)"
  by (simp add: rmd_wf driver_insert_fields py_copy_def)

lemma set_add_to_set: "set (add_to_set v xs) = insert v (set xs)"
  by (auto simp add: add_to_set_def)

lemma add_to_set_idem: "add_to_set v (add_to_set v xs) = add_to_set v xs"
  by (simp add: add_to_set_def)

lemma distinct_add_to_set: "distinct xs \<Longrightarrow> distinct (add_to_set v xs)"
  by (simp add: add_to_set_def)

lemma map_of_upsert_source:
  "map_of (upsert_source k s coll) k' =
     (if k' = k then Some (add_to_set s (sources_of coll k)) else map_of coll k')"
  by (simp add: upsert_source_def sources_of_def update_conv')

lemma sources_of_upsert_source:
  "sources_of (upsert_source k s coll) k' =
     (if k' = k then add_to_set s (sources_of coll k) else sources_of coll k')"
  by (simp add: sources_of_def [of "upsert_source k s coll"] map_of_upsert_source)
     (simp add: sources_of_def)

lemma upsert_source_idem:
  "upsert_source k s (upsert_source k s coll) = upsert_source k s coll"
proof -
  have "map_of (upsert_source k s coll) k = Some (add_to_set s (sources_of coll k))"
    by (simp add: map_of_upsert_source)
  then show ?thesis
    by (simp add: upsert_source_def [of k s "upsert_source k s coll"] add_to_set_idem)
       (simp add: upsert_source_def sources_of_def)
qed

lemma rmd_user_mono:
  "set (sources_of (db_user w) k) \<subseteq> set (sources_of (db_user (snd (record_metering_data w d t))) k)"
  by (auto simp add: rmd_db_user sources_of_upsert_source set_add_to_set split: option.splits)

lemma rmd_project_mono:
  "set (sources_of (db_project w) k)
     \<subseteq> set (sources_of (db_project (snd (record_metering_data w d t))) k)"
  by (auto simp add: rmd_db_project sources_of_upsert_source set_add_to_set split: option.splits)

lemma record_all_snoc:
  "record_all w (cs @ [(a, t)]) = snd (record_metering_data (record_all w cs) a t)"
  by (simp add: record_all_def)

lemma record_all_user_mono:
  "set (sources_of (db_user w) k) \<subseteq> set (sources_of (db_user (record_all w cs)) k)"
proof (induction cs rule: rev_induct)
  case Nil
  show ?case by (simp add: record_all_def)
next
  case (snoc c cs)
  obtain a t where c: "c = (a, t)" by (cases c)
  from snoc rmd_user_mono [of "record_all w cs" k a t] show ?case
    unfolding c record_all_snoc by blast
qed

lemma record_all_project_mono:
  "set (sources_of (db_project w) k) \<subseteq> set (sources_of (db_project (record_all w cs)) k)"
proof (induction cs rule: rev_induct)
  case Nil
  show ?case by (simp add: record_all_def)
next
  case (snoc c cs)
  obtain a t where c: "c = (a, t)" by (cases c)
  from snoc rmd_project_mono [of "record_all w cs" k a t] show ?case
    unfolding c record_all_snoc by blast
qed

text \<open>
  Claim C2. The source array that the user registry, and likewise the project registry,
  holds for an id only grows over any series of ingestions. Ingesting a sample adds its
  source to the array of its user (project); ingesting a second sample with the same
  user (project) and source changes nothing; when the registry had no record for the id
  before, the array after the two ingestions is the one-element array of that source.
\<close>

theorem source_sets_monotone_idempotent:
  "(\<forall>k. set (sources_of (db_user w) k) \<subseteq> set (sources_of (db_user (record_all w cs)) k))
   \<and> (\<forall>k. set (sources_of (db_project w) k)
            \<subseteq> set (sources_of (db_project (record_all w cs)) k))
   \<and> (a1 < next_addr w \<and> a2 < next_addr w
        \<and> map_of (heap w a1) ''user_id'' = Some u \<and> map_of (heap w a1) ''source'' = Some s
        \<and> map_of (heap w a2) ''user_id'' = Some u \<and> map_of (heap w a2) ''source'' = Some s
      \<longrightarrow> (let w1 = snd (record_metering_data w a1 t1);
                w2 = snd (record_metering_data w1 a2 t2)
            in set (sources_of (db_user w1) u) = insert s (set (sources_of (db_user w) u))
               \<and> db_user w2 = db_user w1
               \<and> (map_of (db_user w) u = None \<longrightarrow> map_of (db_user w2) u = Some [s])))
   \<and> (a1 < next_addr w \<and> a2 < next_addr w
        \<and> map_of (heap w a1) ''user_id'' \<noteq> None \<and> map_of (heap w a2) ''user_id'' \<noteq> None
        \<and> map_of (heap w a1) ''project_id'' = Some p \<and> map_of (heap w a1) ''source'' = Some s
        \<and> map_of (heap w a2) ''project_id'' = Some p \<and> map_of (heap w a2) ''source'' = Some s
      \<longrightarrow> (let w1 = snd (record_metering_data w a1 t1);
                w2 = snd (record_metering_data w1 a2 t2)
            in set (sources_of (db_project w1) p) = insert s (set (sources_of (db_project w) p))
               \<and> db_project w2 = db_project w1
               \<and> (map_of (db_project w) p = None \<longrightarrow> map_of (db_project w2) p = Some [s])))"
proof -
  let ?w1 = "snd (record_metering_data w a1 t1)"
  let ?w2 = "snd (record_metering_data ?w1 a2 t2)"
  have mono_u: "\<forall>k. set (sources_of (db_user w) k) \<subseteq> set (sources_of (db_user (record_all w cs)) k)"
    using record_all_user_mono by blast
  have mono_p: "\<forall>k. set (sources_of (db_project w) k)
            \<subseteq> set (sources_of (db_project (record_all w cs)) k)"
    using record_all_project_mono by blast
  have usr: "set (sources_of (db_user ?w1) u) = insert s (set (sources_of (db_user w) u))
               \<and> db_user ?w2 = db_user ?w1
               \<and> (map_of (db_user w) u = None \<longrightarrow> map_of (db_user ?w2) u = Some [s])"
    if h: "a1 < next_addr w" "a2 < next_addr w"
        "map_of (heap w a1) ''user_id'' = Some u" "map_of (heap w a1) ''source'' = Some s"
        "map_of (heap w a2) ''user_id'' = Some u" "map_of (heap w a2) ''source'' = Some s"
  proof -
    have h2: "heap ?w1 a2 = heap w a2" using h(2) by (rule rmd_heap_frame)
    have u1: "db_user ?w1 = upsert_source u s (db_user w)"
      by (simp add: rmd_db_user h)
    have u2: "db_user ?w2 = upsert_source u s (db_user ?w1)"
      by (simp add: rmd_db_user [of ?w1] h2 h)
    have idem: "db_user ?w2 = db_user ?w1"
      unfolding u2 unfolding u1 by (rule upsert_source_idem)
    have "map_of (db_user ?w1) u = Some [s]" if "map_of (db_user w) u = None"
      using that by (simp add: u1 map_of_upsert_source sources_of_def add_to_set_def)
    with idem u1 show ?thesis
      by (simp add: sources_of_upsert_source set_add_to_set)
  qed
  have prj: "set (sources_of (db_project ?w1) p) = insert s (set (sources_of (db_project w) p))
               \<and> db_project ?w2 = db_project ?w1
               \<and> (map_of (db_project w) p = None \<longrightarrow> map_of (db_project ?w2) p = Some [s])"
    if h: "a1 < next_addr w" "a2 < next_addr w"
        "map_of (heap w a1) ''user_id'' \<noteq> None" "map_of (heap w a2) ''user_id'' \<noteq> None"
        "map_of (heap w a1) ''project_id'' = Some p" "map_of (heap w a1) ''source'' = Some s"
        "map_of (heap w a2) ''project_id'' = Some p" "map_of (heap w a2) ''source'' = Some s"
  proof -
    have h2: "heap ?w1 a2 = heap w a2" using h(2) by (rule rmd_heap_frame)
    have p1: "db_project ?w1 = upsert_source p s (db_project w)"
      using h by (auto simp add: rmd_db_project)
    have p2: "db_project ?w2 = upsert_source p s (db_project ?w1)"
      using h by (auto simp add: rmd_db_project [of ?w1] h2)
    have idem: "db_project ?w2 = db_project ?w1"
      unfolding p2 unfolding p1 by (rule upsert_source_idem)
    have "map_of (db_project ?w1) p = Some [s]" if "map_of (db_project w) p = None"
      using that by (simp add: p1 map_of_upsert_source sources_of_def add_to_set_def)
    with idem p1 show ?thesis
      by (simp add: sources_of_upsert_source set_add_to_set)
  qed
  from mono_u mono_p usr prj show ?thesis
    unfolding Let_def by blast
qed

theorem source_sets_monotone_idempotent_witness:
  "map_of (db_user (snd (record_metering_data
       (snd (record_metering_data world0 0 (PTime 100))) 0 (PTime 101)))) (PStr ''user-id'')
     = Some [PStr ''test_list_users'']
   \<and> map_of (db_project (snd (record_metering_data
       (snd (record_metering_data world0 0 (PTime 100))) 1 (PTime 101)))) (PStr ''project-id'')
     = Some [PStr ''test_list_users'']"
proof -
  have a: "(0::nat) < next_addr world0" "(1::nat) < next_addr world0"
    by (simp_all add: world0_def)
  have k0: "map_of (heap world0 0) ''user_id'' = Some (PStr ''user-id'')"
    "map_of (heap world0 0) ''source'' = Some (PStr ''test_list_users'')"
    "map_of (heap world0 0) ''project_id'' = Some (PStr ''project-id'')"
    by (simp_all add: world0_heap sample1_def)
  have k1: "map_of (heap world0 1) ''user_id'' \<noteq> None"
    "map_of (heap world0 1) ''source'' = Some (PStr ''test_list_users'')"
    "map_of (heap world0 1) ''project_id'' = Some (PStr ''project-id'')"
    by (simp_all add: world0_heap sample2_def)
  have e: "map_of (db_user world0) (PStr ''user-id'') = None"
    "map_of (db_project world0) (PStr ''project-id'') = None"
    by (simp_all add: world0_def)
  show ?thesis
    using source_sets_monotone_idempotent [where w = world0 and cs = "[]" and ?a1.0 = 0
          and ?a2.0 = 0 and u = "PStr ''user-id''" and s = "PStr ''test_list_users''"
          and ?t1.0 = "PTime 100" and ?t2.0 = "PTime 101" and p = "PStr ''project-id''"]
        source_sets_monotone_idempotent [where w = world0 and cs = "[]" and ?a1.0 = 0
          and ?a2.0 = 1 and u = "PStr ''user-id''" and s = "PStr ''test_list_users''"
          and ?t1.0 = "PTime 100" and ?t2.0 = "PTime 101" and p = "PStr ''project-id''"]
        a k0 k1 e
    unfolding Let_def by blast
qed

lemma with_item_cases:
  assumes "Q (Some (KeyError k), w)"
    and "\<And>v. map_of (heap w d) k = Some v \<Longrightarrow> Q (body v)"
  shows "Q (with_item w d k body)"
  using assms by (simp add: with_item_def getitem_def split: option.splits)

lemma rmd_success_wf:
  "fst (record_metering_data w d t) = None \<longrightarrow> wf_sample (heap w d)"
  unfolding record_metering_data_def Let_def
  by (intro with_item_cases [where Q = "\<lambda>res. fst res = None \<longrightarrow> wf_sample (heap w d)"])
     (simp_all add: wf_sample_def sample_keys_def)

lemma driver_insert_ok:
  assumes "fst (driver_insert w r) = None"
  shows "db_meter (snd (driver_insert w r)) = db_meter w @ [heap (snd (driver_insert w r)) r]"
    and "k \<noteq> ''_id'' \<Longrightarrow> map_of (objs (snd (driver_insert w r)) r) k = map_of (objs w r) k"
    and "map_of (objs (snd (driver_insert w r)) r) ''_id'' \<noteq> None"
    and "map_of (objs w r) ''_id'' = None \<Longrightarrow>
           map_of (objs (snd (driver_insert w r)) r) ''_id'' = Some (Imm (POid (next_oid w)))"
  using assms
  by (auto simp add: driver_insert_def Let_def update_conv' heap_def split: if_splits)

lemma driver_insert_succeeds:
  assumes "map_of (objs w r) ''_id'' = None"
    and "\<not> list_ex (\<lambda>d. map_of d ''_id'' = Some (POid (next_oid w))) (db_meter w)"
  shows "fst (driver_insert w r) = None"
  using assms
  by (simp add: driver_insert_def Let_def update_conv' map_of_heap cell_value_def)

text \<open>What a call that returns has done: one new dictionary object, the copy, with the
  cells of the sample and an \<open>_id\<close>, and one new raw document, the copy by value.\<close>

lemma rmd_success:
  assumes ok: "fst (record_metering_data w d t) = None"
  shows "next_addr (snd (record_metering_data w d t)) = Suc (next_addr w)"
    and "k \<noteq> ''_id'' \<Longrightarrow>
           map_of (objs (snd (record_metering_data w d t)) (next_addr w)) k = map_of (objs w d) k"
    and "map_of (objs (snd (record_metering_data w d t)) (next_addr w)) ''_id'' \<noteq> None"
    and "db_meter (snd (record_metering_data w d t))
           = db_meter w @ [heap (snd (record_metering_data w d t)) (next_addr w)]"
proof -
  from ok have wf: "wf_sample (heap w d)" using rmd_success_wf by blast
  note eq = rmd_wf [OF wf, of t]
  let ?W = "snd (py_copy
         (log_call ''resource.update''
           ((log_call ''project.update''
              ((log_call ''user.update''
                 (w\<lparr>db_user := upsert_source (item (heap w d) ''user_id'')
                                 (item (heap w d) ''source'') (db_user w)\<rparr>))
               \<lparr>db_project := upsert_source (item (heap w d) ''project_id'')
                                 (item (heap w d) ''source'') (db_project w)\<rparr>))
            \<lparr>db_resource := upsert_resource (item (heap w d) ''resource_id'')
               \<lparr>r_project_id = item (heap w d) ''project_id'',
                r_user_id = item (heap w d) ''user_id'',
                r_timestamp = item (heap w d) ''timestamp'', r_received_timestamp = t,
                r_metadata = item (heap w d) ''resource_metadata'',
                r_source = item (heap w d) ''source'', r_meter = []\<rparr>
               (meter_entry (heap w d)) (db_resource w)\<rparr>)) d)"
  from ok have ok': "fst (driver_insert ?W (next_addr w)) = None"
    unfolding eq .
  have W: "objs ?W (next_addr w) = objs w d" "db_meter ?W = db_meter w"
    "next_addr ?W = Suc (next_addr w)"
    by (simp_all add: py_copy_def)
  show "next_addr (snd (record_metering_data w d t)) = Suc (next_addr w)"
    unfolding eq by (simp add: driver_insert_fields W)
  show "map_of (objs (snd (record_metering_data w d t)) (next_addr w)) k = map_of (objs w d) k"
    if "k \<noteq> ''_id''"
    unfolding eq using driver_insert_ok(2) [OF ok' that] by (simp add: W)
  show "map_of (objs (snd (record_metering_data w d t)) (next_addr w)) ''_id'' \<noteq> None"
    unfolding eq using driver_insert_ok(3) [OF ok'] .
  show "db_meter (snd (record_metering_data w d t))
           = db_meter w @ [heap (snd (record_metering_data w d t)) (next_addr w)]"
    unfolding eq using driver_insert_ok(1) [OF ok'] by (simp add: W)
qed

lemma rmd_can_succeed:
  assumes wf: "wf_sample (heap w d)" and noid: "map_of (heap w d) ''_id'' = None"
    and nodup: "\<not> list_ex (\<lambda>x. map_of x ''_id'' = Some (POid (next_oid w))) (db_meter w)"
  shows "fst (record_metering_data w d t) = None"
proof -
  from noid have "map_of (objs w d) ''_id'' = None" by (simp add: map_of_heap)
  then show ?thesis
    unfolding rmd_wf [OF wf]
    by (intro driver_insert_succeeds) (use nodup in \<open>simp_all add: py_copy_def\<close>)
qed

text \<open>
  Claim C8, as the code has it. The copy is a shallow one. After
  \<open>record_metering_data\<close>, whether it returned or raised, every dictionary object that was
  allocated before the call has the cells it had before and every nested object is
  unchanged, so the caller's sample reads as before and has the \<open>_id\<close> entry it had, none
  if it had none. When the call returns, the object that received the identifier is the
  copy, at an address that was not allocated before and so differs from the caller's;
  on every key but \<open>_id\<close> the copy has the very cell of the caller's sample, a reference
  being the same reference; the raw log gained exactly one document, the copy by value.
  The call does return for a sample that carries every key and no \<open>_id\<close>, when the
  driver's next object id is not in the raw log.
\<close>

theorem caller_sample_unchanged:
  assumes "data < next_addr w"
  shows "(\<forall>a < next_addr w. objs (snd (record_metering_data w data t)) a = objs w a)
       \<and> boxes (snd (record_metering_data w data t)) = boxes w
       \<and> (\<forall>a < next_addr w. heap (snd (record_metering_data w data t)) a = heap w a)
       \<and> map_of (heap (snd (record_metering_data w data t)) data) ''_id''
           = map_of (heap w data) ''_id''
       \<and> (fst (record_metering_data w data t) = None \<longrightarrow>
            next_addr (snd (record_metering_data w data t)) = Suc (next_addr w)
            \<and> next_addr w \<noteq> data
            \<and> db_meter (snd (record_metering_data w data t))
                = db_meter w @ [heap (snd (record_metering_data w data t)) (next_addr w)]
            \<and> (\<forall>k. k \<noteq> ''_id'' \<longrightarrow>
                  map_of (objs (snd (record_metering_data w data t)) (next_addr w)) k
                    = map_of (objs w data) k)
            \<and> (\<forall>k. k \<noteq> ''_id'' \<longrightarrow>
                  map_of (heap (snd (record_metering_data w data t)) (next_addr w)) k
                    = map_of (heap w data) k)
            \<and> map_of (heap (snd (record_metering_data w data t)) (next_addr w)) ''_id'' \<noteq> None)
       \<and> (wf_sample (heap w data) \<and> map_of (heap w data) ''_id'' = None
            \<and> \<not> list_ex (\<lambda>d. map_of d ''_id'' = Some (POid (next_oid w))) (db_meter w)
          \<longrightarrow> fst (record_metering_data w data t) = None)"
proof -
  let ?res = "record_metering_data w data t"
  have fo: "\<forall>a < next_addr w. objs (snd ?res) a = objs w a"
    by (simp add: rmd_objs_frame)
  have fb: "boxes (snd ?res) = boxes w" by (rule rmd_boxes)
  have frame: "\<forall>a < next_addr w. heap (snd ?res) a = heap w a"
    by (simp add: rmd_heap_frame)
  with assms have same: "map_of (heap (snd ?res) data) ''_id'' = map_of (heap w data) ''_id''"
    by simp
  have fresh: "next_addr w \<noteq> data" using assms by simp
  have succ: "next_addr (snd ?res) = Suc (next_addr w)
            \<and> db_meter (snd ?res) = db_meter w @ [heap (snd ?res) (next_addr w)]
            \<and> (\<forall>k. k \<noteq> ''_id'' \<longrightarrow>
                  map_of (objs (snd ?res) (next_addr w)) k = map_of (objs w data) k)
            \<and> (\<forall>k. k \<noteq> ''_id'' \<longrightarrow>
                  map_of (heap (snd ?res) (next_addr w)) k = map_of (heap w data) k)
            \<and> map_of (heap (snd ?res) (next_addr w)) ''_id'' \<noteq> None"
    if ok: "fst ?res = None"
  proof -
    note s = rmd_success [OF ok]
    have cells: "\<forall>k. k \<noteq> ''_id'' \<longrightarrow>
        map_of (objs (snd ?res) (next_addr w)) k = map_of (objs w data) k"
      using s(2) by blast
    then have vals: "\<forall>k. k \<noteq> ''_id'' \<longrightarrow>
        map_of (heap (snd ?res) (next_addr w)) k = map_of (heap w data) k"
      by (simp add: map_of_heap fb)
    from s(3) have "map_of (heap (snd ?res) (next_addr w)) ''_id'' \<noteq> None"
      by (simp add: map_of_heap)
    with s(1) s(4) cells vals show ?thesis by blast
  qed
  have can: "fst ?res = None"
    if "wf_sample (heap w data)" "map_of (heap w data) ''_id'' = None"
       "\<not> list_ex (\<lambda>d. map_of d ''_id'' = Some (POid (next_oid w))) (db_meter w)"
    using that by (rule rmd_can_succeed)
  from fo fb frame same fresh succ can show ?thesis by blast
qed

theorem caller_sample_unchanged_witness:
  "heap (snd (record_metering_data world0 0 (PTime 100))) 0 = sample1
   \<and> objs (snd (record_metering_data world0 0 (PTime 100))) 0 = sample1_object
   \<and> map_of (heap (snd (record_metering_data world0 0 (PTime 100))) 0) ''_id'' = None
   \<and> fst (record_metering_data world0 0 (PTime 100)) = None
   \<and> map_of (heap (snd (record_metering_data world0 0 (PTime 100))) 2) ''_id'' \<noteq> None"
proof -
  have a: "(0::nat) < next_addr world0" by (simp add: world0_def)
  have n: "next_addr world0 = 2" by (simp add: world0_def)
  have h: "heap world0 0 = sample1" by (rule world0_heap)
  have o: "objs world0 0 = sample1_object" by (simp add: world0_def)
  have wf: "wf_sample (heap world0 0)"
    by (simp add: h wf_sample_def sample_keys_def sample1_def)
  have noid: "map_of (heap world0 0) ''_id'' = None"
    by (simp add: h sample1_def)
  have nodup: "\<not> list_ex (\<lambda>d. map_of d ''_id'' = Some (POid (next_oid world0))) (db_meter world0)"
    by (simp add: world0_def)
  note th = caller_sample_unchanged [OF a, of "PTime 100", unfolded n]
  from th have fo: "\<forall>a<2. objs (snd (record_metering_data world0 0 (PTime 100))) a = objs world0 a"
    by (rule conjunct1)
  from th have fr: "\<forall>a<2. heap (snd (record_metering_data world0 0 (PTime 100))) a = heap world0 a"
    by blast
  from th wf noid nodup have ok: "fst (record_metering_data world0 0 (PTime 100)) = None"
    by blast
  from th ok have id: "map_of (heap (snd (record_metering_data world0 0 (PTime 100))) 2) ''_id'' \<noteq> None"
    by blast
  from fr have "heap (snd (record_metering_data world0 0 (PTime 100))) 0 = sample1"
    by (simp add: h)
  moreover from fo have "objs (snd (record_metering_data world0 0 (PTime 100))) 0 = sample1_object"
    by (simp add: o)
  ultimately show ?thesis using ok id noid h by simp
qed

text \<open>
  The claim as the specification words it fails on the nested object: in the state of
  the test, where the caller's sample is object 0 and its \<open>resource_metadata\<close> is the
  nested object 0, the call returns, the copy is object 2 and the raw document is that
  copy, and the copy holds under \<open>resource_metadata\<close> the reference that the caller's
  sample holds: the two dictionary objects share the nested object.
\<close>

theorem copy_shares_resource_metadata:
  "fst (record_metering_data world0 0 (PTime 100)) = None
   \<and> db_meter (snd (record_metering_data world0 0 (PTime 100)))
       = [heap (snd (record_metering_data world0 0 (PTime 100))) 2]
   \<and> map_of (objs (snd (record_metering_data world0 0 (PTime 100))) 2) ''resource_metadata''
       = Some (Ref 0)
   \<and> map_of (objs (snd (record_metering_data world0 0 (PTime 100))) 0) ''resource_metadata''
       = Some (Ref 0)
   \<and> shares_nested (snd (record_metering_data world0 0 (PTime 100))) 2 0"
proof -
  let ?w' = "snd (record_metering_data world0 0 (PTime 100))"
  have n: "next_addr world0 = 2" by (simp add: world0_def)
  have h: "heap world0 0 = sample1" by (rule world0_heap)
  have o: "objs world0 0 = sample1_object" by (simp add: world0_def)
  have wf: "wf_sample (heap world0 0)"
    by (simp add: h wf_sample_def sample_keys_def sample1_def)
  have noid: "map_of (heap world0 0) ''_id'' = None"
    by (simp add: h sample1_def)
  have nodup: "\<not> list_ex (\<lambda>d. map_of d ''_id'' = Some (POid (next_oid world0))) (db_meter world0)"
    by (simp add: world0_def)
  have ok: "fst (record_metering_data world0 0 (PTime 100)) = None"
    using wf noid nodup by (rule rmd_can_succeed)
  note s = rmd_success [OF ok, unfolded n]
  have log: "db_meter ?w' = [heap ?w' 2]"
    using s(4) by (simp add: world0_def)
  have c2: "map_of (objs ?w' 2) ''resource_metadata'' = Some (Ref 0)"
    using s(2) [of "''resource_metadata''"] by (simp add: o sample1_object_def)
  have "objs ?w' 0 = objs world0 0"
    by (rule rmd_objs_frame) (simp add: n)
  then have c0: "map_of (objs ?w' 0) ''resource_metadata'' = Some (Ref 0)"
    by (simp add: o sample1_object_def)
  have in_refs: "map_of ob k = Some (Ref m) \<Longrightarrow> m \<in> set (refs_of ob)"
    for ob :: "(string \<times> cell) list" and k m
    by (induction ob) (auto simp add: refs_of_def split: if_splits)
  from in_refs [OF c2] in_refs [OF c0] have "shares_nested ?w' 2 0"
    by (auto simp add: shares_nested_def list_ex_iff)
  with ok log c2 c0 show ?thesis by blast
qed

lemma map_of_upsert_resource:
  "map_of (upsert_resource k sets m coll) k' =
     (if k' = k then Some (sets\<lparr>r_meter := add_to_set m (meters_of coll k)\<rparr>)
      else map_of coll k')"
  by (simp add: upsert_resource_def meters_of_def update_conv')

lemma meters_of_upsert_resource:
  "meters_of (upsert_resource k sets m coll) k' =
     (if k' = k then add_to_set m (meters_of coll k) else meters_of coll k')"
  by (simp add: meters_of_def [of "upsert_resource k sets m coll"] map_of_upsert_resource)
     (simp add: meters_of_def)

lemma record_all_frame:
  "a < next_addr w \<Longrightarrow>
     heap (record_all w cs) a = heap w a \<and> next_addr w \<le> next_addr (record_all w cs)"
proof (induction cs rule: rev_induct)
  case Nil
  show ?case by (simp add: record_all_def)
next
  case (snoc c cs)
  obtain b t where c: "c = (b, t)" by (cases c)
  from snoc have ih: "heap (record_all w cs) a = heap w a"
    and le: "next_addr w \<le> next_addr (record_all w cs)" by simp_all
  from snoc.prems le have "a < next_addr (record_all w cs)" by simp
  then have "heap (snd (record_metering_data (record_all w cs) b t)) a = heap (record_all w cs) a"
    by (rule rmd_heap_frame)
  moreover have "next_addr (record_all w cs)
      \<le> next_addr (snd (record_metering_data (record_all w cs) b t))"
    by (rule rmd_next_addr)
  ultimately show ?case using ih le by (simp add: c record_all_snoc)
qed

lemma record_all_resource:
  assumes "\<forall>c \<in> set cs. fst c < next_addr w \<and> wf_sample (heap w (fst c))"
  shows "set (meters_of (db_resource (record_all w cs)) r)
           = set (meters_of (db_resource w) r)
             \<union> (\<lambda>c. meter_entry (heap w (fst c)))
                 ` set (filter (\<lambda>c. item (heap w (fst c)) ''resource_id'' = r) cs)
       \<and> (filter (\<lambda>c. item (heap w (fst c)) ''resource_id'' = r) cs \<noteq> [] \<longrightarrow>
            (\<exists>d. map_of (db_resource (record_all w cs)) r = Some d
               \<and> r_metadata d = item (heap w (fst (last
                    (filter (\<lambda>c. item (heap w (fst c)) ''resource_id'' = r) cs))))
                    ''resource_metadata''))
       \<and> (filter (\<lambda>c. item (heap w (fst c)) ''resource_id'' = r) cs = [] \<longrightarrow>
            map_of (db_resource (record_all w cs)) r = map_of (db_resource w) r)"
  using assms
proof (induction cs rule: rev_induct)
  case Nil
  show ?case by (simp add: record_all_def)
next
  case (snoc c cs)
  obtain a t where c: "c = (a, t)" by (cases c)
  let ?w = "record_all w cs"
  from snoc.prems have a: "a < next_addr w" and wf: "wf_sample (heap w a)"
    by (simp_all add: c)
  from record_all_frame [OF a, of cs] have h: "heap ?w a = heap w a" by simp
  from wf h have wf': "wf_sample (heap ?w a)" by simp
  from snoc.prems have "\<forall>c \<in> set cs. fst c < next_addr w \<and> wf_sample (heap w (fst c))"
    by simp
  note ih = snoc.IH [OF this]
  have step: "db_resource (record_all w (cs @ [c])) =
     upsert_resource (item (heap w a) ''resource_id'')
       \<lparr>r_project_id = item (heap w a) ''project_id'', r_user_id = item (heap w a) ''user_id'',
        r_timestamp = item (heap w a) ''timestamp'', r_received_timestamp = t,
        r_metadata = item (heap w a) ''resource_metadata'', r_source = item (heap w a) ''source'',
        r_meter = []\<rparr>
       (meter_entry (heap w a)) (db_resource ?w)"
    unfolding c record_all_snoc rmd_db_resource [OF wf'] h ..
  let ?P = "\<lambda>c. item (heap w (fst c)) ''resource_id'' = r"
  from ih have ih1: "set (meters_of (db_resource ?w) r)
           = set (meters_of (db_resource w) r)
             \<union> (\<lambda>c. meter_entry (heap w (fst c))) ` set (filter ?P cs)"
    by (rule conjunct1)
  show ?case
  proof (cases "item (heap w a) ''resource_id'' = r")
    case True
    then have f: "filter ?P (cs @ [c]) = filter ?P cs @ [c]" by (simp add: c)
    have m: "set (meters_of (db_resource (record_all w (cs @ [c]))) r)
           = set (meters_of (db_resource w) r)
             \<union> (\<lambda>c. meter_entry (heap w (fst c))) ` set (filter ?P (cs @ [c]))"
      unfolding f step using True ih1
      by (simp add: meters_of_upsert_resource set_add_to_set c)
    have d: "\<exists>d. map_of (db_resource (record_all w (cs @ [c]))) r = Some d
               \<and> r_metadata d = item (heap w (fst (last (filter ?P (cs @ [c])))))
                    ''resource_metadata''"
      unfolding f step using True
      by (simp add: map_of_upsert_resource c)
    have ne: "filter ?P (cs @ [c]) \<noteq> []" unfolding f by simp
    from m d ne show ?thesis by blast
  next
    case False
    then have f: "filter ?P (cs @ [c]) = filter ?P cs" by (simp add: c)
    have same: "map_of (db_resource (record_all w (cs @ [c]))) r = map_of (db_resource ?w) r"
      unfolding step using False by (simp add: map_of_upsert_resource)
    then have same_m: "meters_of (db_resource (record_all w (cs @ [c]))) r
        = meters_of (db_resource ?w) r"
      by (simp add: meters_of_def)
    from ih show ?thesis unfolding f same same_m .
  qed
qed

text \<open>
  Claim C3. Take any series of ingestions of well-formed samples that the caller holds.
  For every resource id, the meter array of the resource registry afterwards holds, as a
  set, what it held before together with the \<open>{counter_name, counter_type}\<close> entry of
  every sample of the series for that resource; if the series has a sample for the
  resource, the record's \<open>metadata\<close> is the \<open>resource_metadata\<close> of the last such sample, as
  it is; if it has none, the record is untouched. In particular, for a series of samples
  that all name one resource, the metadata is that of the last sample and the meter set
  is the union over all of them.
\<close>

theorem resource_metadata_last_write_meter_union:
  assumes "\<forall>c \<in> set cs. fst c < next_addr w \<and> wf_sample (heap w (fst c))"
  shows "set (meters_of (db_resource (record_all w cs)) r)
           = set (meters_of (db_resource w) r)
             \<union> (\<lambda>c. meter_entry (heap w (fst c)))
                 ` set (filter (\<lambda>c. item (heap w (fst c)) ''resource_id'' = r) cs)
       \<and> (filter (\<lambda>c. item (heap w (fst c)) ''resource_id'' = r) cs \<noteq> [] \<longrightarrow>
            (\<exists>d. map_of (db_resource (record_all w cs)) r = Some d
               \<and> r_metadata d = item (heap w (fst (last
                    (filter (\<lambda>c. item (heap w (fst c)) ''resource_id'' = r) cs))))
                    ''resource_metadata''))
       \<and> (filter (\<lambda>c. item (heap w (fst c)) ''resource_id'' = r) cs = [] \<longrightarrow>
            map_of (db_resource (record_all w cs)) r = map_of (db_resource w) r)
       \<and> (cs \<noteq> [] \<and> (\<forall>c \<in> set cs. item (heap w (fst c)) ''resource_id'' = r) \<longrightarrow>
            (\<exists>d. map_of (db_resource (record_all w cs)) r = Some d
               \<and> r_metadata d = item (heap w (fst (last cs))) ''resource_metadata''
               \<and> set (r_meter d) = set (meters_of (db_resource w) r)
                     \<union> (\<lambda>c. meter_entry (heap w (fst c))) ` set cs))"
proof -
  note gen = record_all_resource [OF assms, of r]
  have "\<exists>d. map_of (db_resource (record_all w cs)) r = Some d
               \<and> r_metadata d = item (heap w (fst (last cs))) ''resource_metadata''
               \<and> set (r_meter d) = set (meters_of (db_resource w) r)
                     \<union> (\<lambda>c. meter_entry (heap w (fst c))) ` set cs"
    if ne: "cs \<noteq> []" and all: "\<forall>c \<in> set cs. item (heap w (fst c)) ''resource_id'' = r"
  proof -
    from all have f: "filter (\<lambda>c. item (heap w (fst c)) ''resource_id'' = r) cs = cs"
      by (simp add: filter_id_conv)
    from gen [unfolded f] ne obtain d
      where d: "map_of (db_resource (record_all w cs)) r = Some d"
        and md: "r_metadata d = item (heap w (fst (last cs))) ''resource_metadata''"
      by blast
    from gen [unfolded f] have "set (meters_of (db_resource (record_all w cs)) r)
           = set (meters_of (db_resource w) r)
             \<union> (\<lambda>c. meter_entry (heap w (fst c))) ` set cs"
      by (rule conjunct1)
    with d have "set (r_meter d) = set (meters_of (db_resource w) r)
             \<union> (\<lambda>c. meter_entry (heap w (fst c))) ` set cs"
      by (simp add: meters_of_def)
    with d md show ?thesis by blast
  qed
  with gen show ?thesis by blast
qed

theorem resource_metadata_last_write_meter_union_witness:
  "\<exists>d. map_of (db_resource (record_all world0 [(0, PTime 100), (1, PTime 101)]))
          (PStr ''resource-id'') = Some d
     \<and> r_metadata d = PDict [(''display_name'', PStr ''test-server''),
                             (''tag'', PStr ''self.counter2'')]
     \<and> set (r_meter d) = {PDict [(''counter_name'', PStr ''instance''),
                                  (''counter_type'', PStr ''cumulative'')]}"
proof -
  let ?cs = "[(0, PTime 100), (1, PTime 101)] :: (nat \<times> pyval) list"
  have h: "heap world0 0 = sample1" "heap world0 (Suc 0) = sample2" "next_addr world0 = 2"
    "db_resource world0 = []"
    by (simp_all add: world0_heap) (simp_all add: world0_def)
  have wf: "wf_sample sample1" "wf_sample sample2"
    by (simp_all add: wf_sample_def sample_keys_def sample1_def sample2_def)
  have pre: "\<forall>c \<in> set ?cs. fst c < next_addr world0 \<and> wf_sample (heap world0 (fst c))"
    by (simp add: h wf)
  have rid: "\<forall>c \<in> set ?cs. item (heap world0 (fst c)) ''resource_id'' = PStr ''resource-id''"
    by (simp add: h item_def sample1_def sample2_def)
  have md: "item (heap world0 (fst (last ?cs))) ''resource_metadata''
      = PDict [(''display_name'', PStr ''test-server''), (''tag'', PStr ''self.counter2'')]"
    by (simp add: h item_def sample2_def)
  have ms: "set (meters_of (db_resource world0) (PStr ''resource-id''))
              \<union> (\<lambda>c. meter_entry (heap world0 (fst c))) ` set ?cs
      = {PDict [(''counter_name'', PStr ''instance''), (''counter_type'', PStr ''cumulative'')]}"
    by (simp add: h meters_of_def meter_entry_def item_def sample1_def sample2_def)
  have ne: "?cs \<noteq> []" by simp
  from resource_metadata_last_write_meter_union [OF pre, of "PStr ''resource-id''"] ne rid
  have "\<exists>d. map_of (db_resource (record_all world0 ?cs)) (PStr ''resource-id'') = Some d
               \<and> r_metadata d = item (heap world0 (fst (last ?cs))) ''resource_metadata''
               \<and> set (r_meter d) = set (meters_of (db_resource world0) (PStr ''resource-id''))
                     \<union> (\<lambda>c. meter_entry (heap world0 (fst c))) ` set ?cs"
    by blast
  then show ?thesis unfolding md ms .
qed

subsection \<open>Aggregation\<close>

lemma js_field_item: "js_field d k = item d k"
  by (simp add: js_field_def item_def)

lemma map_reduce_timestamp:
  "map_reduce coll MAP_TIMESTAMP REDUCE_MIN_MAX q =
     (let vals = map (\<lambda>d. PDict [(''min'', item d ''timestamp''), (''max'', item d ''timestamp'')])
                   (coll_find q coll)
      in if vals = [] then []
         else [(PStr ''timestamp'',
                if length vals = 1 then hd vals else REDUCE_MIN_MAX (PStr ''timestamp'') vals)])"
proof -
  let ?docs = "coll_find q coll"
  let ?mk = "\<lambda>d. PDict [(''min'', item d ''timestamp''), (''max'', item d ''timestamp'')]"
  have em: "concat (map MAP_TIMESTAMP ?docs) = map (\<lambda>d. (PStr ''timestamp'', ?mk d)) ?docs"
    by (induction ?docs) (simp_all add: MAP_TIMESTAMP_def js_field_item)
  have keys: "remdups (map fst (map (\<lambda>d. (PStr ''timestamp'', ?mk d)) ds))
      = (if ds = [] then [] else [PStr ''timestamp''])" for ds :: "pydict list"
  proof (induction ds)
    case Nil
    show ?case by simp
  next
    case (Cons d ds)
    then show ?case by (cases ds) simp_all
  qed
  have vals: "map snd (filter (\<lambda>kv. fst kv = PStr ''timestamp'')
        (map (\<lambda>d. (PStr ''timestamp'', ?mk d)) ds)) = map ?mk ds" for ds :: "pydict list"
    by (induction ds) auto
  show ?thesis
    unfolding map_reduce_def em Let_def keys
    by (simp add: vals comp_def del: One_nat_def)
qed

lemma fold_min_max:
  "fold min_max_step
     (map (\<lambda>t. PDict [(''min'', PTime t), (''max'', PTime t)]) ts)
     (PDict [(''min'', PTime lo), (''max'', PTime hi)])
   = PDict [(''min'', PTime (fold min ts lo)), (''max'', PTime (fold max ts hi))]"
proof (induction ts arbitrary: lo hi)
  case Nil
  show ?case by simp
next
  case (Cons t ts)
  have step: "min_max_step (PDict [(''min'', PTime t), (''max'', PTime t)])
                (PDict [(''min'', PTime lo), (''max'', PTime hi)])
      = PDict [(''min'', PTime (min t lo)), (''max'', PTime (max t hi))]"
    by (simp add: min_max_step_def js_field_def Let_def min_def max_def)
  show ?case
    by (simp add: step Cons.IH)
qed

lemma reduce_min_max_times:
  "REDUCE_MIN_MAX key (map (\<lambda>t. PDict [(''min'', PTime t), (''max'', PTime t)]) (t # ts))
     = PDict [(''min'', PTime (Min (set (t # ts)))), (''max'', PTime (Max (set (t # ts))))]"
  unfolding Min.set_eq_fold Max.set_eq_fold
  by (simp add: REDUCE_MIN_MAX_def fold_min_max)


lemma log_call_db_meter: "db_meter (log_call n c) = db_meter c"
  by (simp add: log_call_def)

text \<open>
  Claim C7. Let the filter translate to a query (its meter is given). If no sample of the
  raw log matches the query, \<open>get_event_interval\<close> returns \<open>(None, None)\<close>. If the matching
  samples are not none and carry the datetimes \<open>ts\<close> as their timestamps, it returns the
  least and the greatest of \<open>ts\<close>.
\<close>

theorem event_interval_min_max:
  assumes "make_query_from_filter f True = Inr q"
  shows "(coll_find q (db_meter c) = [] \<longrightarrow>
            fst (get_event_interval c f) = Inr (PNone, PNone))
       \<and> (\<forall>ts. ts \<noteq> []
              \<and> map (\<lambda>d. item d ''timestamp'') (coll_find q (db_meter c)) = map PTime ts \<longrightarrow>
            fst (get_event_interval c f) = Inr (PTime (Min (set ts)), PTime (Max (set ts))))"
proof -
  let ?docs = "coll_find q (db_meter c)"
  let ?g = "\<lambda>v. PDict [(''min'', v), (''max'', v)]"
  have none: "fst (get_event_interval c f) = Inr (PNone, PNone)" if "?docs = []"
    using that
    by (simp add: get_event_interval_def assms log_call_db_meter map_reduce_timestamp Let_def)
  have some: "fst (get_event_interval c f) = Inr (PTime (Min (set ts)), PTime (Max (set ts)))"
    if ne: "ts \<noteq> []" and ts: "map (\<lambda>d. item d ''timestamp'') ?docs = map PTime ts" for ts
  proof -
    from ne obtain t ts' where tt: "ts = t # ts'" by (cases ts) auto
    have "map (\<lambda>d. ?g (item d ''timestamp'')) ?docs = map ?g (map (\<lambda>d. item d ''timestamp'') ?docs)"
      by (simp add: comp_def)
    then have vals: "map (\<lambda>d. ?g (item d ''timestamp'')) ?docs = map (\<lambda>t. ?g (PTime t)) ts"
      unfolding ts by (simp add: comp_def)
    have red: "(if length (map (\<lambda>t. ?g (PTime t)) ts) = 1 then hd (map (\<lambda>t. ?g (PTime t)) ts)
                else REDUCE_MIN_MAX (PStr ''timestamp'') (map (\<lambda>t. ?g (PTime t)) ts))
        = PDict [(''min'', PTime (Min (set ts))), (''max'', PTime (Max (set ts)))]"
    proof (cases "ts' = []")
      case True
      then show ?thesis by (simp add: tt)
    next
      case False
      then have "length (map (\<lambda>t. ?g (PTime t)) ts) \<noteq> 1" by (simp add: tt)
      then show ?thesis
        unfolding tt using reduce_min_max_times [of "PStr ''timestamp''" t ts']
        by (simp del: One_nat_def)
    qed
    have mr: "map_reduce (db_meter c) MAP_TIMESTAMP REDUCE_MIN_MAX q
        = [(PStr ''timestamp'',
            PDict [(''min'', PTime (Min (set ts))), (''max'', PTime (Max (set ts)))])]"
      unfolding map_reduce_timestamp Let_def vals red using ne by simp
    show ?thesis
      by (simp add: get_event_interval_def assms log_call_db_meter mr Let_def getitem_def
            convert_interval_def)
  qed
  from none some show ?thesis by blast
qed

theorem event_interval_min_max_witness:
  "fst (get_event_interval conn2 (no_filter\<lparr>meter := PStr ''instance''\<rparr>))
     = Inr (PTime 40, PTime 41)
   \<and> fst (get_event_interval empty_conn (no_filter\<lparr>meter := PStr ''instance''\<rparr>))
     = Inr (PNone, PNone)"
proof -
  let ?f = "no_filter\<lparr>meter := PStr ''instance''\<rparr>"
  let ?q = "[(''counter_name'', PStr ''instance'')]"
  have q: "make_query_from_filter ?f True = Inr ?q"
    by (simp add: make_query_from_filter_def make_timestamp_range_def no_filter_def Let_def)
  have docs: "coll_find ?q (db_meter conn2) = db_meter conn2"
    by (simp add: coll_find_def conn2_def matches_def sample1_def sample2_def)
  have ts: "map (\<lambda>d. item d ''timestamp'') (coll_find ?q (db_meter conn2)) = map PTime [40, 41]"
    unfolding docs by (simp add: conn2_def item_def sample1_def sample2_def)
  have e: "coll_find ?q (db_meter empty_conn) = []"
    by (simp add: coll_find_def empty_conn_def)
  have m: "Min (set [40, 41 :: int]) = 40" "Max (set [40, 41 :: int]) = 41" by simp_all
  from event_interval_min_max [OF q, of conn2] ts
  have "fst (get_event_interval conn2 ?f)
      = Inr (PTime (Min (set [40, 41])), PTime (Max (set [40, 41])))"
    by blast
  moreover from event_interval_min_max [OF q, of empty_conn] e
  have "fst (get_event_interval empty_conn ?f) = Inr (PNone, PNone)" by blast
  ultimately show ?thesis unfolding m by simp
qed













subsection \<open>Listing resources\<close>

lemma world0_wf: "wf_sample (heap world0 0)" "wf_sample (heap world0 (Suc 0))"
  by (simp_all add: world0_heap wf_sample_def sample_keys_def sample1_def sample2_def)

lemma after_first:
  "db_meter (snd (record_metering_data world0 0 (PTime 100))) = [sample1 @ [(''_id'', POid 0)]]"
  "db_resource (snd (record_metering_data world0 0 (PTime 100))) = [(PStr ''resource-id'',
      \<lparr>r_project_id = PStr ''project-id'', r_user_id = PStr ''user-id'',
       r_timestamp = PTime 40, r_received_timestamp = PTime 100,
       r_metadata = PDict metadata1, r_source = PStr ''test_list_users'',
       r_meter = [PDict [(''counter_name'', PStr ''instance''),
                         (''counter_type'', PStr ''cumulative'')]]\<rparr>)]"
  "next_oid (snd (record_metering_data world0 0 (PTime 100))) = 1"
  "next_addr (snd (record_metering_data world0 0 (PTime 100))) = 3"
  "objs (snd (record_metering_data world0 0 (PTime 100))) (Suc 0) = sample2_object"
  "boxes (snd (record_metering_data world0 0 (PTime 100))) (Suc 0) = metadata2"
  unfolding rmd_wf [OF world0_wf(1)]
  by (simp_all add: world0_heap driver_insert_def py_copy_def Let_def heap_def
        cell_value_def item_def meter_entry_def upsert_resource_def add_to_set_def
        sample1_def sample2_def metadata1_def metadata2_def world0_def
        sample1_object_def sample2_object_def log_call_def)

lemma after_first_heap:
  "heap (snd (record_metering_data world0 0 (PTime 100))) (Suc 0) = sample2"
  by (simp add: heap_def after_first cell_value_def sample2_object_def sample2_def metadata2_def)

lemma ingested_state:
  "db_meter ingested = [sample1 @ [(''_id'', POid 0)], sample2 @ [(''_id'', POid 1)]]"
  "db_resource ingested = [(PStr ''resource-id'',
      \<lparr>r_project_id = PStr ''project-id'', r_user_id = PStr ''user-id2'',
       r_timestamp = PTime 41, r_received_timestamp = PTime 101,
       r_metadata = PDict metadata2, r_source = PStr ''test_list_users'',
       r_meter = [PDict [(''counter_name'', PStr ''instance''),
                         (''counter_type'', PStr ''cumulative'')]]\<rparr>)]"
proof -
  let ?w1 = "snd (record_metering_data world0 0 (PTime 100))"
  have wf: "wf_sample (heap ?w1 (Suc 0))"
    by (simp add: after_first_heap wf_sample_def sample_keys_def sample2_def)
  have ing: "ingested = snd (record_metering_data ?w1 (Suc 0) (PTime 101))"
    by (simp add: ingested_def record_all_def)
  show "db_meter ingested = [sample1 @ [(''_id'', POid 0)], sample2 @ [(''_id'', POid 1)]]"
    unfolding ing rmd_wf [OF wf]
    by (simp add: after_first after_first_heap driver_insert_def py_copy_def Let_def heap_def
        cell_value_def sample1_def sample2_def metadata2_def sample2_object_def log_call_def)
  show "db_resource ingested = [(PStr ''resource-id'',
      \<lparr>r_project_id = PStr ''project-id'', r_user_id = PStr ''user-id2'',
       r_timestamp = PTime 41, r_received_timestamp = PTime 101,
       r_metadata = PDict metadata2, r_source = PStr ''test_list_users'',
       r_meter = [PDict [(''counter_name'', PStr ''instance''),
                         (''counter_type'', PStr ''cumulative'')]]\<rparr>)]"
    unfolding ing rmd_db_resource [OF wf]
    by (simp add: after_first after_first_heap item_def meter_entry_def upsert_resource_def
        add_to_set_def sample2_def metadata2_def)
qed

text \<open>
  The claim as worded fails for a call with a time bound. After the two samples for one
  resource, the first by \<open>user-id\<close> and the second by \<open>user-id2\<close>, the registry record of the
  resource names \<open>user-id2\<close>. A listing for \<open>user-id\<close> and \<open>project-id\<close> from timestamp 1 finds
  the first sample in the raw log and returns the registry record of its resource, whose
  \<open>user_id\<close> is not the user asked for: the registry itself was asked by \<open>_id\<close> only.
\<close>

theorem time_bounded_listing_ignores_registry_owner:
  "fst (get_resources ingested (PStr ''user-id'') (PStr ''project-id'') PNone (PTime 1) PNone)
     = [[(''project_id'', PStr ''project-id''), (''user_id'', PStr ''user-id2''),
         (''timestamp'', PTime 41), (''received_timestamp'', PTime 101),
         (''metadata'', PDict metadata2), (''source'', PStr ''test_list_users''),
         (''meter'', PList [PDict [(''counter_name'', PStr ''instance''),
                                   (''counter_type'', PStr ''cumulative'')]]),
         (''resource_id'', PStr ''resource-id'')]]"
  by (simp add: get_resources_def resource_query_def make_timestamp_range_def Let_def
        log_call_def ingested_state coll_find_def matches_def op_holds_def distinct_field_def
        List.map_filter_def sample1_def sample2_def resource_as_dict_def reshape_resource_def)


lemma resource_query_both:
  assumes "user_v \<noteq> PNone" and "project_v \<noteq> PNone"
  shows "resource_query user_v project_v source_v =
           (if source_v \<noteq> PNone
            then [(''user_id'', user_v), (''project_id'', project_v), (''source'', source_v)]
            else [(''user_id'', user_v), (''project_id'', project_v)])"
  using assms by (simp add: resource_query_def)

lemma matches_update_fresh:
  "map_of q k = None \<Longrightarrow>
     matches (AList.update k v q) d \<longleftrightarrow> matches q d \<and> cond_holds v (map_of d k)"
  by (induction q) (auto simp add: matches_def split: if_splits)

text \<open>
  Claim C10, as the code has it. When the user and the project argument are both given,
  the query that \<open>get_resources\<close> builds has the \<open>user_id\<close> clause and the \<open>project_id\<close> clause,
  and a document matches it exactly when it satisfies both (and the source clause, if a
  source is given): there is no precedence of the user over the project, whereas the
  filter translation drops the project when the user is set. Without a time bound the
  query is put to the resource registry, and the records returned are the registry
  documents that match it. With a time bound the query, extended by the timestamp
  clause, is put to the raw log, and the registry is asked only for the documents whose
  \<open>_id\<close> is a resource id of a matching sample.
\<close>

theorem resources_query_conjunctive:
  assumes "user_v \<noteq> PNone" and "project_v \<noteq> PNone"
  shows "map_of (resource_query user_v project_v source_v) ''user_id'' = Some user_v
       \<and> map_of (resource_query user_v project_v source_v) ''project_id'' = Some project_v
       \<and> (\<forall>d. matches (resource_query user_v project_v source_v) d \<longleftrightarrow>
              cond_holds user_v (map_of d ''user_id'')
              \<and> cond_holds project_v (map_of d ''project_id'')
              \<and> (source_v \<noteq> PNone \<longrightarrow> cond_holds source_v (map_of d ''source'')))
       \<and> (\<not> truthy start_timestamp \<and> \<not> truthy end_timestamp \<longrightarrow>
            fst (get_resources c user_v project_v source_v start_timestamp end_timestamp)
              = map reshape_resource
                  (coll_find (resource_query user_v project_v source_v)
                     (map resource_as_dict (db_resource c))))
       \<and> (truthy start_timestamp \<or> truthy end_timestamp \<longrightarrow>
            fst (get_resources c user_v project_v source_v start_timestamp end_timestamp)
              = map reshape_resource
                  (coll_find
                     [(''_id'', PDict [(''$in'', PList (distinct_field ''resource_id''
                         (coll_find
                            (AList.update ''timestamp''
                               (PDict (make_timestamp_range start_timestamp end_timestamp))
                               (resource_query user_v project_v source_v))
                            (db_meter c))))])]
                     (map resource_as_dict (db_resource c)))
            \<and> (\<forall>d. matches (AList.update ''timestamp''
                               (PDict (make_timestamp_range start_timestamp end_timestamp))
                               (resource_query user_v project_v source_v)) d \<longleftrightarrow>
                   cond_holds user_v (map_of d ''user_id'')
                   \<and> cond_holds project_v (map_of d ''project_id'')
                   \<and> (source_v \<noteq> PNone \<longrightarrow> cond_holds source_v (map_of d ''source''))
                   \<and> cond_holds (PDict (make_timestamp_range start_timestamp end_timestamp))
                        (map_of d ''timestamp'')))
       \<and> (truthy user_v \<longrightarrow>
            (\<forall>f rm q. user f = user_v \<and> project f = project_v
                \<and> make_query_from_filter f rm = Inr q \<longrightarrow>
              map_of q ''user_id'' = Some user_v \<and> map_of q ''project_id'' = None))"
proof -
  let ?q = "resource_query user_v project_v source_v"
  let ?r = "make_timestamp_range start_timestamp end_timestamp"
  note rq = resource_query_both [OF assms, of source_v]
  have u: "map_of ?q ''user_id'' = Some user_v" by (simp add: rq)
  have p: "map_of ?q ''project_id'' = Some project_v" by (simp add: rq)
  have nt: "map_of ?q ''timestamp'' = None" by (simp add: rq)
  have m: "\<forall>d. matches ?q d \<longleftrightarrow>
              cond_holds user_v (map_of d ''user_id'')
              \<and> cond_holds project_v (map_of d ''project_id'')
              \<and> (source_v \<noteq> PNone \<longrightarrow> cond_holds source_v (map_of d ''source''))"
    by (simp add: rq matches_def del: cond_holds.simps)
  have notime: "fst (get_resources c user_v project_v source_v start_timestamp end_timestamp)
              = map reshape_resource (coll_find ?q (map resource_as_dict (db_resource c)))"
    if "\<not> truthy start_timestamp \<and> \<not> truthy end_timestamp"
    using that by (simp add: get_resources_def Let_def log_call_def)
  have time: "fst (get_resources c user_v project_v source_v start_timestamp end_timestamp)
              = map reshape_resource
                  (coll_find
                     [(''_id'', PDict [(''$in'', PList (distinct_field ''resource_id''
                         (coll_find (AList.update ''timestamp'' (PDict ?r) ?q) (db_meter c))))])]
                     (map resource_as_dict (db_resource c)))"
    if t: "truthy start_timestamp \<or> truthy end_timestamp"
  proof -
    from t have "?r \<noteq> []" by (simp add: mtr_empty)
    with t show ?thesis
      by (simp add: get_resources_def Let_def log_call_def)
  qed
  have mt: "\<forall>d. matches (AList.update ''timestamp'' (PDict ?r) ?q) d \<longleftrightarrow>
                   cond_holds user_v (map_of d ''user_id'')
                   \<and> cond_holds project_v (map_of d ''project_id'')
                   \<and> (source_v \<noteq> PNone \<longrightarrow> cond_holds source_v (map_of d ''source''))
                   \<and> cond_holds (PDict ?r) (map_of d ''timestamp'')"
    unfolding matches_update_fresh [OF nt] using m by blast
  have contrast: "\<forall>f rm q. user f = user_v \<and> project f = project_v
                \<and> make_query_from_filter f rm = Inr q \<longrightarrow>
              map_of q ''user_id'' = Some user_v \<and> map_of q ''project_id'' = None"
    if "truthy user_v"
    using that
    by (auto simp add: make_query_from_filter_def Let_def update_conv' split: if_splits)
  from u p m notime time mt contrast show ?thesis by blast
qed

theorem resources_query_conjunctive_witness:
  "resource_query (PStr ''user-id2'') (PStr ''project-id'') PNone
     = [(''user_id'', PStr ''user-id2''), (''project_id'', PStr ''project-id'')]
   \<and> fst (get_resources ingested (PStr ''user-id2'') (PStr ''project-id'') PNone PNone PNone)
     = map reshape_resource
         (coll_find [(''user_id'', PStr ''user-id2''), (''project_id'', PStr ''project-id'')]
            (map resource_as_dict (db_resource ingested)))
   \<and> fst (get_resources ingested (PStr ''user-id'') (PStr ''project-id'') PNone PNone PNone)
     = map reshape_resource
         (coll_find [(''user_id'', PStr ''user-id''), (''project_id'', PStr ''project-id'')]
            (map resource_as_dict (db_resource ingested)))"
proof -
  have ne: "PStr ''user-id2'' \<noteq> PNone" "PStr ''user-id'' \<noteq> PNone" "PStr ''project-id'' \<noteq> PNone"
    by simp_all
  have q2: "resource_query (PStr ''user-id2'') (PStr ''project-id'') PNone
     = [(''user_id'', PStr ''user-id2''), (''project_id'', PStr ''project-id'')]"
    by (simp add: resource_query_def)
  have q1: "resource_query (PStr ''user-id'') (PStr ''project-id'') PNone
     = [(''user_id'', PStr ''user-id''), (''project_id'', PStr ''project-id'')]"
    by (simp add: resource_query_def)
  have nt: "\<not> truthy PNone \<and> \<not> truthy PNone" by simp
  from resources_query_conjunctive [OF ne(1) ne(3), of PNone PNone PNone ingested] nt
  have a: "fst (get_resources ingested (PStr ''user-id2'') (PStr ''project-id'') PNone PNone PNone)
     = map reshape_resource
         (coll_find (resource_query (PStr ''user-id2'') (PStr ''project-id'') PNone)
            (map resource_as_dict (db_resource ingested)))"
    by blast
  from resources_query_conjunctive [OF ne(2) ne(3), of PNone PNone PNone ingested] nt
  have b: "fst (get_resources ingested (PStr ''user-id'') (PStr ''project-id'') PNone PNone PNone)
     = map reshape_resource
         (coll_find (resource_query (PStr ''user-id'') (PStr ''project-id'') PNone)
            (map resource_as_dict (db_resource ingested)))"
    by blast
  from a b q1 q2 show ?thesis by simp
qed

end
